theory Spec2Isabelle
  imports Main "HOL-Library.Product_Lexorder" "HOL-Library.Multiset"
begin

section \<open>Data model\<close>

text \<open>
  Clock readings (\<^verbatim>\<open>datetime.utcnow()\<close> and what is derived from it by adding a
  \<^verbatim>\<open>timedelta\<close>) are integers counting seconds. A calendar date is its day number, a
  time of day is its number of seconds since midnight, and the \<^verbatim>\<open>datetime\<close> stored in
  an appointment is the pair of the two, so that \<^verbatim>\<open>datetime.combine(d, t).date()\<close> is
  \<open>d\<close> and \<^verbatim>\<open>.time()\<close> is \<open>t\<close>.

  Python's \<^verbatim>\<open>datetime\<close> ranges from year 1 to year 9999 and a \<^verbatim>\<open>timedelta\<close> holds at
  most 999999999 days in either direction; an addition that leaves either range raises
  \<^verbatim>\<open>OverflowError\<close>. Day numbers are those of \<^verbatim>\<open>date.toordinal()\<close> (1 to 3652059)
  and clock readings count the seconds since the first instant of year 1 (0 to
  315537897599). An addition that would raise returns \<open>None\<close>.
\<close>

type_synonym instant = int
type_synonym date = int
type_synonym time = nat
type_synonym datetime = "date \<times> time"

definition combine :: "date \<Rightarrow> time \<Rightarrow> datetime" where
  "combine d t = (d, t)"

definition date_of :: "datetime \<Rightarrow> date" where
  "date_of dt = fst dt"

definition time_of :: "datetime \<Rightarrow> time" where
  "time_of dt = snd dt"

definition hour :: "time \<Rightarrow> nat" where
  "hour t = t div 3600"

definition timedelta_ok :: "int \<Rightarrow> bool" where
  "timedelta_ok seconds =
     (- 999999999 \<le> seconds div 86400 \<and> seconds div 86400 \<le> 999999999)"

definition add_seconds :: "instant \<Rightarrow> int \<Rightarrow> instant option" where
  "add_seconds now seconds =
     (if timedelta_ok seconds \<and> 0 \<le> now + seconds \<and> now + seconds \<le> 315537897599
      then Some (now + seconds) else None)"

definition add_minutes :: "datetime \<Rightarrow> int \<Rightarrow> datetime option" where
  "add_minutes dt m =
     (let total = int (time_of dt) + 60 * m;
          day = date_of dt + total div 86400
      in if timedelta_ok (60 * m) \<and> 1 \<le> day \<and> day \<le> 3652059
         then Some (day, nat (total mod 86400)) else None)"

text \<open>
  Decimal rendering of the numbers that enter the lock key. The source formats the date and
  the time with \<^verbatim>\<open>str\<close>; only equality of the resulting keys is ever observed.
\<close>

fun str_nat :: "nat \<Rightarrow> string" where
  "str_nat n =
     (if n < 10 then [char_of (48 + n)]
      else str_nat (n div 10) @ [char_of (48 + n mod 10)])"

declare str_nat.simps [simp del]

definition str_int :: "int \<Rightarrow> string" where
  "str_int i = (if i < 0 then CHR ''-'' # str_nat (nat (- i)) else str_nat (nat i))"

text \<open>Truthiness of an \<^verbatim>\<open>Optional[str]\<close>: \<^verbatim>\<open>None\<close> and the empty string are false.\<close>

fun truthy :: "string option \<Rightarrow> bool" where
  "truthy None = False"
| "truthy (Some s) = (s \<noteq> [])"

text \<open>Python's \<^verbatim>\<open>d[k] = v\<close> on an insertion-ordered dictionary.\<close>

fun dict_set :: "'k \<Rightarrow> 'v \<Rightarrow> ('k \<times> 'v) list \<Rightarrow> ('k \<times> 'v) list" where
  "dict_set k v [] = [(k, v)]"
| "dict_set k v (p # ps) = (if fst p = k then (k, v) # ps else p # dict_set k v ps)"

text \<open>Python's \<^verbatim>\<open>xs[:n]\<close>: a negative \<open>n\<close> counts from the end.\<close>

definition slice_to :: "int \<Rightarrow> 'a list \<Rightarrow> 'a list" where
  "slice_to n xs = (if n < 0 then take (nat (int (length xs) + n)) xs else take (nat n) xs)"

text \<open>
  The source raises \<^verbatim>\<open>ValueError\<close> with a message; each message is a constructor here,
  next to the \<^verbatim>\<open>OverflowError\<close> of the date arithmetic. \<open>kind\<close> classifies them the
  way the specification names failures; an \<^verbatim>\<open>OverflowError\<close> is none of those.
\<close>

datatype error =
    SlotBeingBooked           \<comment> \<open>Slot is currently being booked by another user\<close>
  | SlotNoLongerAvailable     \<comment> \<open>Selected slot is no longer available\<close>
  | NewSlotNotAvailable       \<comment> \<open>New slot is not available\<close>
  | SlotNotAvailable          \<comment> \<open>Slot not available\<close>
  | AppointmentNotFound       \<comment> \<open>Appointment not found\<close>
  | CannotUpdateCancelled     \<comment> \<open>Cannot update cancelled appointment\<close>
  | AlreadyCancelled          \<comment> \<open>Appointment already cancelled\<close>
  | WaitlistEntryNotFound     \<comment> \<open>Waitlist entry not found\<close>
  | OverflowError             \<comment> \<open>raised by \<^verbatim>\<open>datetime + timedelta\<close>\<close>

datatype error_kind = SlotContended | SlotUnavailable | NotFound | InvalidState | Unexpected

fun kind :: "error \<Rightarrow> error_kind" where
  "kind SlotBeingBooked = SlotContended"
| "kind SlotNoLongerAvailable = SlotUnavailable"
| "kind NewSlotNotAvailable = SlotUnavailable"
| "kind SlotNotAvailable = SlotUnavailable"
| "kind AppointmentNotFound = NotFound"
| "kind CannotUpdateCancelled = InvalidState"
| "kind AlreadyCancelled = InvalidState"
| "kind WaitlistEntryNotFound = NotFound"
| "kind OverflowError = Unexpected"

section \<open>Cache service: the lock table\<close>

record lock_record =
  acquired_at :: instant
  lock_expires_at :: instant

text \<open>Of \<^verbatim>\<open>CacheService\<close> only the lock table takes part in booking.\<close>

record CacheService =
  locks :: "string \<rightharpoonup> lock_record"

text \<open>
  The last statement of \<open>acquire_lock\<close>: the record is built, which may raise, and then
  stored.
\<close>

definition install_lock :: "instant \<Rightarrow> string \<Rightarrow> int \<Rightarrow> CacheService \<Rightarrow> (error + bool) \<times> CacheService" where
  "install_lock now key ttl c =
     (case add_seconds now ttl of
        None \<Rightarrow> (Inl OverflowError, c)
      | Some e \<Rightarrow>
          (Inr True, c\<lparr>locks := (locks c)(key \<mapsto> \<lparr>acquired_at = now, lock_expires_at = e\<rparr>)\<rparr>))"

definition acquire_lock :: "instant \<Rightarrow> string \<Rightarrow> int \<Rightarrow> CacheService \<Rightarrow> (error + bool) \<times> CacheService" where
  "acquire_lock now key ttl c =
     (case locks c key of
        Some lock \<Rightarrow>
          if lock_expires_at lock > now then (Inr False, c)
          else install_lock now key ttl (c\<lparr>locks := (locks c)(key := None)\<rparr>)
      | None \<Rightarrow> install_lock now key ttl c)"

definition release_lock :: "string \<Rightarrow> CacheService \<Rightarrow> CacheService" where
  "release_lock key c =
     (if key \<in> dom (locks c) then c\<lparr>locks := (locks c)(key := None)\<rparr> else c)"

definition extend_lock :: "instant \<Rightarrow> string \<Rightarrow> int \<Rightarrow> CacheService \<Rightarrow> (error + bool) \<times> CacheService" where
  "extend_lock now key ttl c =
     (case locks c key of
        Some lock \<Rightarrow>
          (case add_seconds now ttl of
             None \<Rightarrow> (Inl OverflowError, c)
           | Some e \<Rightarrow> (Inr True, c\<lparr>locks := (locks c)(key \<mapsto> lock\<lparr>lock_expires_at := e\<rparr>)\<rparr>))
      | None \<Rightarrow> (Inr False, c))"

text \<open>A key can be taken at \<open>now\<close>: it has no record, or its record is no longer in force.\<close>

definition reclaimable :: "instant \<Rightarrow> string \<Rightarrow> CacheService \<Rightarrow> bool" where
  "reclaimable now key c =
     (case locks c key of None \<Rightarrow> True | Some lock \<Rightarrow> \<not> lock_expires_at lock > now)"

section \<open>Availability service\<close>

record TimeSlot =
  slot_id :: string
  slot_provider_id :: string
  slot_provider_name :: string
  slot_location_id :: string
  slot_location_name :: string
  slot_date :: date
  start_time :: time
  slot_end_time :: time
  slot_duration_minutes :: int
  appointment_types :: "string list"
  available :: bool
  held_by :: "string option"
  held_until :: "instant option"

record AvailabilitySearch =
  search_specialty :: "string option"
  search_location_id :: "string option"
  search_provider_id :: "string option"
  start_date :: date
  end_date :: date
  time_of_day :: "string option"
  search_appointment_type :: "string option"
  limit :: int

record SlotHold =
  hold_slot_id :: string
  hold_patient_id :: string
  held_at :: instant
  hold_expires_at :: instant
  hold_status :: string

text \<open>
  The two dictionaries of \<^verbatim>\<open>AvailabilityService\<close>, in insertion order: the loops of the
  source run over \<^verbatim>\<open>self.slots.values()\<close> and stop at the first slot that matches.
\<close>

record AvailabilityService =
  slots :: "(string \<times> TimeSlot) list"
  holds :: "(string \<times> SlotHold) list"

definition same_key :: "TimeSlot \<Rightarrow> string \<Rightarrow> date \<Rightarrow> time \<Rightarrow> bool" where
  "same_key slot provider_id d t =
     (slot_provider_id slot = provider_id \<and> slot_date slot = d \<and> start_time slot = t)"

text \<open>
  The body of the loop of \<open>search_slots\<close>: \<open>skipped\<close> holds when one of the
  \<^verbatim>\<open>continue\<close> statements is reached, tried in the order of the source.
\<close>

definition skipped :: "AvailabilitySearch \<Rightarrow> TimeSlot \<Rightarrow> bool" where
  "skipped search slot =
     (if \<not> available slot then True
      else if slot_date slot < start_date search then True
      else if slot_date slot > end_date search then True
      else if truthy (search_provider_id search)
              \<and> slot_provider_id slot \<noteq> the (search_provider_id search) then True
      else if truthy (search_location_id search)
              \<and> slot_location_id slot \<noteq> the (search_location_id search) then True
      else if truthy (search_appointment_type search)
              \<and> the (search_appointment_type search) \<notin> set (appointment_types slot) then True
      else if truthy (time_of_day search) then
        (if the (time_of_day search) = ''morning'' \<and> hour (start_time slot) \<ge> 12 then True
         else if the (time_of_day search) = ''afternoon''
                 \<and> (hour (start_time slot) < 12 \<or> hour (start_time slot) \<ge> 17) then True
         else if the (time_of_day search) = ''evening'' \<and> hour (start_time slot) < 17 then True
         else False)
      else False)"

fun search_loop :: "AvailabilitySearch \<Rightarrow> TimeSlot list \<Rightarrow> TimeSlot list \<Rightarrow> TimeSlot list" where
  "search_loop search [] results = results"
| "search_loop search (slot # rest) results =
     (if skipped search slot then search_loop search rest results
      else search_loop search rest (results @ [slot]))"

definition search_slots :: "AvailabilitySearch \<Rightarrow> AvailabilityService \<Rightarrow> TimeSlot list" where
  "search_slots search svc =
     slice_to (limit search)
       (sort_key (\<lambda>s. (slot_date s, start_time s))
          (search_loop search (map snd (slots svc)) []))"

definition get_slot :: "string \<Rightarrow> AvailabilityService \<Rightarrow> TimeSlot option" where
  "get_slot sid svc = map_of (slots svc) sid"

fun is_available_loop :: "(string \<times> TimeSlot) list \<Rightarrow> string \<Rightarrow> date \<Rightarrow> time \<Rightarrow> bool" where
  "is_available_loop [] provider_id d t = False"
| "is_available_loop ((k, slot) # rest) provider_id d t =
     (if same_key slot provider_id d t then available slot
      else is_available_loop rest provider_id d t)"

definition is_slot_available :: "string \<Rightarrow> date \<Rightarrow> time \<Rightarrow> AvailabilityService \<Rightarrow> bool" where
  "is_slot_available provider_id d t svc = is_available_loop (slots svc) provider_id d t"

fun mark_booked_loop ::
  "(string \<times> TimeSlot) list \<Rightarrow> string \<Rightarrow> date \<Rightarrow> time \<Rightarrow> (string \<times> TimeSlot) list" where
  "mark_booked_loop [] provider_id d t = []"
| "mark_booked_loop ((k, slot) # rest) provider_id d t =
     (if same_key slot provider_id d t then (k, slot\<lparr>available := False\<rparr>) # rest
      else (k, slot) # mark_booked_loop rest provider_id d t)"

definition mark_slot_booked ::
  "string \<Rightarrow> date \<Rightarrow> time \<Rightarrow> AvailabilityService \<Rightarrow> AvailabilityService" where
  "mark_slot_booked provider_id d t svc =
     svc\<lparr>slots := mark_booked_loop (slots svc) provider_id d t\<rparr>"

fun mark_available_loop ::
  "(string \<times> TimeSlot) list \<Rightarrow> string \<Rightarrow> date \<Rightarrow> time \<Rightarrow> (string \<times> TimeSlot) list" where
  "mark_available_loop [] provider_id d t = []"
| "mark_available_loop ((k, slot) # rest) provider_id d t =
     (if same_key slot provider_id d t then (k, slot\<lparr>available := True\<rparr>) # rest
      else (k, slot) # mark_available_loop rest provider_id d t)"

definition mark_slot_available ::
  "string \<Rightarrow> date \<Rightarrow> time \<Rightarrow> AvailabilityService \<Rightarrow> AvailabilityService" where
  "mark_slot_available provider_id d t svc =
     svc\<lparr>slots := mark_available_loop (slots svc) provider_id d t\<rparr>"

text \<open>
  \<open>hold_slot\<close>: \<open>uid\<close> stands for the eight hexadecimal digits drawn from
  \<^verbatim>\<open>uuid.uuid4()\<close>. The slot object is changed in place, so it keeps its position in the
  dictionary.
\<close>

definition hold_slot ::
  "instant \<Rightarrow> string \<Rightarrow> string \<Rightarrow> string \<Rightarrow> int \<Rightarrow> AvailabilityService
     \<Rightarrow> (error + SlotHold) \<times> AvailabilityService" where
  "hold_slot now uid sid patient_id duration_minutes svc =
     (case map_of (slots svc) sid of
        None \<Rightarrow> (Inl SlotNotAvailable, svc)
      | Some slot \<Rightarrow>
          if \<not> available slot then (Inl SlotNotAvailable, svc)
          else
            (case add_seconds now (60 * duration_minutes) of
               None \<Rightarrow> (Inl OverflowError, svc)
             | Some e \<Rightarrow>
                 let hold_id = ''hold-'' @ uid;
                     hold = \<lparr>hold_slot_id = sid, hold_patient_id = patient_id, held_at = now,
                             hold_expires_at = e, hold_status = ''active''\<rparr>
                 in (Inr hold,
                     svc\<lparr>holds := dict_set hold_id hold (holds svc),
                         slots := dict_set sid
                           (slot\<lparr>held_by := Some patient_id,
                                 held_until := Some (hold_expires_at hold)\<rparr>) (slots svc)\<rparr>)))"

definition release_hold :: "string \<Rightarrow> string \<Rightarrow> AvailabilityService \<Rightarrow> AvailabilityService" where
  "release_hold sid patient_id svc =
     (case map_of (slots svc) sid of
        None \<Rightarrow> svc
      | Some slot \<Rightarrow>
          if held_by slot = Some patient_id
          then svc\<lparr>slots := dict_set sid (slot\<lparr>held_by := None, held_until := None\<rparr>) (slots svc)\<rparr>
          else svc)"

section \<open>Appointment service\<close>

datatype AppointmentStatus =
  SCHEDULED | CONFIRMED | CHECKED_IN | IN_PROGRESS | COMPLETED | CANCELLED | NO_SHOW

datatype AppointmentType =
  NEW_PATIENT | FOLLOW_UP | CONSULTATION | URGENT | TELEHEALTH | ANNUAL_CHECKUP

record AppointmentCreate =
  req_patient_id :: string
  req_provider_id :: string
  req_location_id :: string
  req_scheduled_date :: date
  req_scheduled_time :: time
  req_appointment_type :: AppointmentType
  req_duration_minutes :: int
  req_reason :: "string option"
  req_notes :: "string option"
  req_telehealth :: bool

record AppointmentUpdate =
  upd_scheduled_date :: "date option"
  upd_scheduled_time :: "time option"
  upd_reason :: "string option"
  upd_notes :: "string option"

record Appointment =
  apt_id :: string
  patient_id :: string
  provider_id :: string
  location_id :: string
  scheduled_time :: datetime
  end_time :: datetime
  appointment_type :: AppointmentType
  status :: AppointmentStatus
  reason :: "string option"
  apt_notes :: "string option"
  telehealth :: bool
  telehealth_link :: "string option"
  checked_in_at :: "instant option"
  completed_at :: "instant option"
  cancelled_at :: "instant option"
  cancellation_reason :: "string option"
  created_at :: instant
  updated_at :: instant

record AppointmentService =
  availability_service :: AvailabilityService
  cache :: CacheService
  appointments :: "string \<rightharpoonup> Appointment"

definition slot_lock_key :: "string \<Rightarrow> date \<Rightarrow> time \<Rightarrow> string" where
  "slot_lock_key provider d t =
     ''lock:slot:'' @ provider @ '':'' @ str_int d @ '':'' @ str_nat t"

text \<open>
  The body of the \<^verbatim>\<open>try\<close> block of \<open>create_appointment\<close>. \<open>uid\<close> stands for the
  twelve hexadecimal digits drawn from \<^verbatim>\<open>uuid.uuid4()\<close>; the clock readings of one call
  are taken as one instant \<open>now\<close>.
\<close>

definition create_appointment_locked ::
  "instant \<Rightarrow> string \<Rightarrow> AppointmentCreate \<Rightarrow> AppointmentService
     \<Rightarrow> (error + Appointment) \<times> AppointmentService" where
  "create_appointment_locked now uid request svc =
     (if \<not> is_slot_available (req_provider_id request) (req_scheduled_date request)
              (req_scheduled_time request) (availability_service svc)
      then (Inl SlotNoLongerAvailable, svc)
      else
        let appointment_id = ''apt-'' @ uid;
            scheduled_datetime = combine (req_scheduled_date request) (req_scheduled_time request)
        in case add_minutes scheduled_datetime (req_duration_minutes request) of
             None \<Rightarrow> (Inl OverflowError, svc)
           | Some ends \<Rightarrow>
               let appointment =
                     \<lparr>apt_id = appointment_id,
                      patient_id = req_patient_id request,
                      provider_id = req_provider_id request,
                      location_id = req_location_id request,
                      scheduled_time = scheduled_datetime,
                      end_time = ends,
                      appointment_type = req_appointment_type request,
                      status = SCHEDULED,
                      reason = req_reason request,
                      apt_notes = req_notes request,
                      telehealth = req_telehealth request,
                      telehealth_link = None,
                      checked_in_at = None,
                      completed_at = None,
                      cancelled_at = None,
                      cancellation_reason = None,
                      created_at = now,
                      updated_at = now\<rparr>
               in (Inr appointment,
                   svc\<lparr>appointments := (appointments svc)(appointment_id \<mapsto> appointment),
                       availability_service :=
                         mark_slot_booked (req_provider_id request) (req_scheduled_date request)
                           (req_scheduled_time request) (availability_service svc)\<rparr>))"

text \<open>
  The lock is taken before the \<^verbatim>\<open>try\<close> block, so an exception of \<open>acquire_lock\<close>
  leaves the function at once; the lock is released in the \<^verbatim>\<open>finally\<close> clause.
\<close>

definition create_appointment ::
  "instant \<Rightarrow> string \<Rightarrow> AppointmentCreate \<Rightarrow> AppointmentService
     \<Rightarrow> (error + Appointment) \<times> AppointmentService" where
  "create_appointment now uid request svc =
     (let lock_key = slot_lock_key (req_provider_id request) (req_scheduled_date request)
                       (req_scheduled_time request);
          acquired = acquire_lock now lock_key 30 (cache svc)
      in case fst acquired of
           Inl e \<Rightarrow> (Inl e, svc\<lparr>cache := snd acquired\<rparr>)
         | Inr lock_acquired \<Rightarrow>
             if \<not> lock_acquired then (Inl SlotBeingBooked, svc\<lparr>cache := snd acquired\<rparr>)
             else
               let body = create_appointment_locked now uid request (svc\<lparr>cache := snd acquired\<rparr>)
               in (fst body, (snd body)\<lparr>cache := release_lock lock_key (cache (snd body))\<rparr>))"

definition get_appointment :: "string \<Rightarrow> AppointmentService \<Rightarrow> Appointment option" where
  "get_appointment appointment_id svc = appointments svc appointment_id"

text \<open>
  \<open>update_appointment\<close>. A \<^verbatim>\<open>date\<close> and a \<^verbatim>\<open>time\<close> object are always true in a
  condition, so \<^verbatim>\<open>update.scheduled_date or update.scheduled_time\<close> holds exactly when
  one of the two is given.
\<close>

definition update_fields :: "instant \<Rightarrow> AppointmentUpdate \<Rightarrow> Appointment \<Rightarrow> Appointment" where
  "update_fields now update a =
     (let a1 = (if truthy (upd_reason update) then a\<lparr>reason := upd_reason update\<rparr> else a);
          a2 = (if truthy (upd_notes update) then a1\<lparr>apt_notes := upd_notes update\<rparr> else a1)
      in a2\<lparr>updated_at := now\<rparr>)"

definition update_appointment ::
  "instant \<Rightarrow> string \<Rightarrow> AppointmentUpdate \<Rightarrow> AppointmentService
     \<Rightarrow> (error + Appointment) \<times> AppointmentService" where
  "update_appointment now appointment_id update svc =
     (case appointments svc appointment_id of
        None \<Rightarrow> (Inl AppointmentNotFound, svc)
      | Some appointment \<Rightarrow>
          if status appointment = CANCELLED then (Inl CannotUpdateCancelled, svc)
          else if upd_scheduled_date update \<noteq> None \<or> upd_scheduled_time update \<noteq> None
          then
            let new_date = (case upd_scheduled_date update of
                              Some d \<Rightarrow> d | None \<Rightarrow> date_of (scheduled_time appointment));
                new_time = (case upd_scheduled_time update of
                              Some t \<Rightarrow> t | None \<Rightarrow> time_of (scheduled_time appointment))
            in if \<not> is_slot_available (provider_id appointment) new_date new_time
                       (availability_service svc)
               then (Inl NewSlotNotAvailable, svc)
               else
                 let released = mark_slot_available (provider_id appointment)
                                  (date_of (scheduled_time appointment))
                                  (time_of (scheduled_time appointment))
                                  (availability_service svc);
                     moved = appointment\<lparr>scheduled_time := combine new_date new_time\<rparr>;
                     booked = mark_slot_booked (provider_id appointment) new_date new_time released;
                     a = update_fields now update moved
                 in (Inr a,
                     svc\<lparr>appointments := (appointments svc)(appointment_id \<mapsto> a),
                         availability_service := booked\<rparr>)
          else
            let a = update_fields now update appointment
            in (Inr a, svc\<lparr>appointments := (appointments svc)(appointment_id \<mapsto> a)\<rparr>))"

definition cancel_appointment ::
  "instant \<Rightarrow> string \<Rightarrow> string option \<Rightarrow> AppointmentService
     \<Rightarrow> (error + unit) \<times> AppointmentService" where
  "cancel_appointment now appointment_id why svc =
     (case appointments svc appointment_id of
        None \<Rightarrow> (Inl AppointmentNotFound, svc)
      | Some appointment \<Rightarrow>
          if status appointment = CANCELLED then (Inl AlreadyCancelled, svc)
          else
            let a = appointment\<lparr>status := CANCELLED, cancellation_reason := why,
                                cancelled_at := Some now, updated_at := now\<rparr>
            in (Inr (),
                svc\<lparr>appointments := (appointments svc)(appointment_id \<mapsto> a),
                    availability_service :=
                      mark_slot_available (provider_id a) (date_of (scheduled_time a))
                        (time_of (scheduled_time a)) (availability_service svc)\<rparr>))"

definition check_in ::
  "instant \<Rightarrow> string \<Rightarrow> AppointmentService \<Rightarrow> (error + unit) \<times> AppointmentService" where
  "check_in now appointment_id svc =
     (case appointments svc appointment_id of
        None \<Rightarrow> (Inl AppointmentNotFound, svc)
      | Some appointment \<Rightarrow>
          (Inr (),
           svc\<lparr>appointments := (appointments svc)(appointment_id \<mapsto>
                  appointment\<lparr>status := CHECKED_IN, checked_in_at := Some now,
                              updated_at := now\<rparr>)\<rparr>))"

definition complete ::
  "instant \<Rightarrow> string \<Rightarrow> string option \<Rightarrow> AppointmentService
     \<Rightarrow> (error + unit) \<times> AppointmentService" where
  "complete now appointment_id new_notes svc =
     (case appointments svc appointment_id of
        None \<Rightarrow> (Inl AppointmentNotFound, svc)
      | Some appointment \<Rightarrow>
          let a1 = appointment\<lparr>status := COMPLETED, completed_at := Some now\<rparr>;
              a2 = (if truthy new_notes then a1\<lparr>apt_notes := new_notes\<rparr> else a1)
          in (Inr (),
              svc\<lparr>appointments := (appointments svc)(appointment_id \<mapsto> a2\<lparr>updated_at := now\<rparr>)\<rparr>))"

section \<open>Waitlist service\<close>

record WaitlistRequest =
  wreq_patient_id :: string
  wreq_provider_id :: string
  wreq_location_id :: "string option"
  wreq_preferred_dates :: "date list"
  wreq_preferred_time_of_day :: "string option"
  wreq_appointment_type :: string
  wreq_urgency :: string
  wreq_notes :: "string option"

record WaitlistEntry =
  wl_id :: string
  wl_patient_id :: string
  wl_provider_id :: string
  wl_location_id :: "string option"
  preferred_dates :: "date list"
  preferred_time_of_day :: "string option"
  wl_appointment_type :: string
  urgency :: string
  wl_status :: string
  position :: int
  wl_created_at :: instant
  notified_at :: "instant option"
  booked_appointment_id :: "string option"

record WaitlistService =
  entries :: "(string \<times> WaitlistEntry) list"

definition add_to_waitlist ::
  "instant \<Rightarrow> string \<Rightarrow> WaitlistRequest \<Rightarrow> WaitlistService \<Rightarrow> WaitlistEntry \<times> WaitlistService" where
  "add_to_waitlist now uid request svc =
     (let entry_id = ''wl-'' @ uid;
          existing = filter (\<lambda>e. wl_provider_id e = wreq_provider_id request
                                  \<and> wl_status e = ''waiting'') (map snd (entries svc));
          pos = int (length existing) + 1;
          entry = \<lparr>wl_id = entry_id,
                   wl_patient_id = wreq_patient_id request,
                   wl_provider_id = wreq_provider_id request,
                   wl_location_id = wreq_location_id request,
                   preferred_dates = wreq_preferred_dates request,
                   preferred_time_of_day = wreq_preferred_time_of_day request,
                   wl_appointment_type = wreq_appointment_type request,
                   urgency = wreq_urgency request,
                   wl_status = ''waiting'',
                   position = pos,
                   wl_created_at = now,
                   notified_at = None,
                   booked_appointment_id = None\<rparr>
      in (entry, svc\<lparr>entries := dict_set entry_id entry (entries svc)\<rparr>))"

definition get_entry :: "string \<Rightarrow> WaitlistService \<Rightarrow> WaitlistEntry option" where
  "get_entry entry_id svc = map_of (entries svc) entry_id"

definition remove_from_waitlist ::
  "string \<Rightarrow> WaitlistService \<Rightarrow> (error + unit) \<times> WaitlistService" where
  "remove_from_waitlist entry_id svc =
     (case map_of (entries svc) entry_id of
        None \<Rightarrow> (Inl WaitlistEntryNotFound, svc)
      | Some entry \<Rightarrow>
          (Inr (), svc\<lparr>entries := dict_set entry_id (entry\<lparr>wl_status := ''removed''\<rparr>) (entries svc)\<rparr>))"

definition notify_patient ::
  "instant \<Rightarrow> string \<Rightarrow> WaitlistService \<Rightarrow> (error + unit) \<times> WaitlistService" where
  "notify_patient now entry_id svc =
     (case map_of (entries svc) entry_id of
        None \<Rightarrow> (Inl WaitlistEntryNotFound, svc)
      | Some entry \<Rightarrow>
          (Inr (), svc\<lparr>entries := dict_set entry_id
                     (entry\<lparr>wl_status := ''notified'', notified_at := Some now\<rparr>) (entries svc)\<rparr>))"

section \<open>The specification's slot states and search contract\<close>

text \<open>
  These definitions follow the specification, not the source. A slot is in one of three
  states; the record of the source carries them as the \<open>available\<close> flag together with
  the holder and the expiry of a hold: a slot that is not available is booked, an available
  slot with a holder whose expiry has not passed is held, and any other slot is available
  (an expired hold counts as never having existed).
\<close>

datatype slot_state = Available | Held | Booked

definition state_of :: "instant \<Rightarrow> TimeSlot \<Rightarrow> slot_state" where
  "state_of now slot =
     (if \<not> available slot then Booked
      else if held_by slot \<noteq> None
              \<and> (case held_until slot of Some expiry \<Rightarrow> now < expiry | None \<Rightarrow> False)
      then Held
      else Available)"

text \<open>
  The time-of-day buckets, the conjunction of the supplied filters (a filter is supplied
  when its value is true in a Python condition), and the answer as the matching slots,
  sorted and truncated.
\<close>

definition in_bucket :: "string \<Rightarrow> nat \<Rightarrow> bool" where
  "in_bucket bucket h =
     ((bucket = ''morning'' \<and> h < 12)
      \<or> (bucket = ''afternoon'' \<and> 12 \<le> h \<and> h < 17)
      \<or> (bucket = ''evening'' \<and> 17 \<le> h))"

definition satisfies_filters :: "instant \<Rightarrow> AvailabilitySearch \<Rightarrow> TimeSlot \<Rightarrow> bool" where
  "satisfies_filters now search slot =
     (state_of now slot = Available
      \<and> start_date search \<le> slot_date slot \<and> slot_date slot \<le> end_date search
      \<and> (truthy (search_provider_id search) \<longrightarrow>
            search_provider_id search = Some (slot_provider_id slot))
      \<and> (truthy (search_location_id search) \<longrightarrow>
            search_location_id search = Some (slot_location_id slot))
      \<and> (truthy (search_appointment_type search) \<longrightarrow>
            the (search_appointment_type search) \<in> set (appointment_types slot))
      \<and> (truthy (time_of_day search) \<longrightarrow>
            in_bucket (the (time_of_day search)) (hour (start_time slot))))"

definition slot_order :: "TimeSlot \<Rightarrow> date \<times> time" where
  "slot_order s = (slot_date s, start_time s)"

definition search_spec :: "instant \<Rightarrow> AvailabilitySearch \<Rightarrow> TimeSlot list \<Rightarrow> TimeSlot list" where
  "search_spec now search all_slots =
     take (nat (limit search))
       (sort_key slot_order (filter (satisfies_filters now search) all_slots))"

section \<open>Sample data\<close>

text \<open>The slot that \<^verbatim>\<open>_generate_sample_slots\<close> builds for one provider, day and hour.\<close>

definition generated_slot ::
  "string \<Rightarrow> string \<Rightarrow> string \<Rightarrow> string \<Rightarrow> string \<Rightarrow> date \<Rightarrow> nat \<Rightarrow> TimeSlot" where
  "generated_slot sid provider pname loc lname d h =
     \<lparr>slot_id = sid, slot_provider_id = provider, slot_provider_name = pname,
      slot_location_id = loc, slot_location_name = lname, slot_date = d,
      start_time = h * 3600, slot_end_time = h * 3600 + 1800, slot_duration_minutes = 30,
      appointment_types = [''new_patient'', ''follow_up''], available = True,
      held_by = None, held_until = None\<rparr>"

definition slot_a :: TimeSlot where
  "slot_a = generated_slot ''slot-a'' ''prov-001'' ''Dr. Sarah Johnson'' ''loc-001''
              ''Downtown Clinic'' 20 14"

definition slot_b :: TimeSlot where
  "slot_b = generated_slot ''slot-b'' ''prov-001'' ''Dr. Sarah Johnson'' ''loc-001''
              ''Downtown Clinic'' 20 10"

definition slot_c :: TimeSlot where
  "slot_c = generated_slot ''slot-c'' ''prov-002'' ''Dr. Michael Chen'' ''loc-002''
              ''Eastside Medical'' 19 9"

definition sample_availability :: AvailabilityService where
  "sample_availability =
     \<lparr>slots = [(''slot-a'', slot_a), (''slot-b'', slot_b), (''slot-c'', slot_c)], holds = []\<rparr>"

definition sample_service :: AppointmentService where
  "sample_service =
     \<lparr>availability_service = sample_availability, cache = \<lparr>locks = Map.empty\<rparr>,
      appointments = Map.empty\<rparr>"

definition sample_request :: "string \<Rightarrow> AppointmentCreate" where
  "sample_request patient =
     \<lparr>req_patient_id = patient, req_provider_id = ''prov-001'', req_location_id = ''loc-001'',
      req_scheduled_date = 20, req_scheduled_time = 36000, req_appointment_type = NEW_PATIENT,
      req_duration_minutes = 30, req_reason = None, req_notes = None, req_telehealth = False\<rparr>"

definition sample_search :: "int \<Rightarrow> AvailabilitySearch" where
  "sample_search n =
     \<lparr>search_specialty = None, search_location_id = None, search_provider_id = Some ''prov-001'',
      start_date = 15, end_date = 25, time_of_day = None, search_appointment_type = None,
      limit = n\<rparr>"

definition booked_appointment :: Appointment where
  "booked_appointment =
     \<lparr>apt_id = ''apt-u1'', patient_id = ''R1'', provider_id = ''prov-001'',
      location_id = ''loc-001'', scheduled_time = (20, 36000), end_time = (20, 37800),
      appointment_type = NEW_PATIENT, status = SCHEDULED, reason = None, apt_notes = None,
      telehealth = False, telehealth_link = None, checked_in_at = None, completed_at = None,
      cancelled_at = None, cancellation_reason = None, created_at = 0, updated_at = 0\<rparr>"

definition booked_service :: AppointmentService where
  "booked_service =
     \<lparr>availability_service =
        \<lparr>slots = [(''slot-a'', slot_a), (''slot-b'', slot_b\<lparr>available := False\<rparr>),
                  (''slot-c'', slot_c)], holds = []\<rparr>,
      cache = \<lparr>locks = Map.empty\<rparr>,
      appointments = [''apt-u1'' \<mapsto> booked_appointment]\<rparr>"

text \<open>The number of entries of a provider that are waiting, as the specification counts them.\<close>

definition waiting_count :: "string \<Rightarrow> WaitlistService \<Rightarrow> nat" where
  "waiting_count provider svc =
     length (filter (\<lambda>e. wl_provider_id e = provider \<and> wl_status e = ''waiting'')
               (map snd (entries svc)))"

definition sample_waitlist_request :: "string \<Rightarrow> string \<Rightarrow> WaitlistRequest" where
  "sample_waitlist_request patient provider =
     \<lparr>wreq_patient_id = patient, wreq_provider_id = provider, wreq_location_id = None,
      wreq_preferred_dates = [], wreq_preferred_time_of_day = None,
      wreq_appointment_type = ''follow_up'', wreq_urgency = ''normal'', wreq_notes = None\<rparr>"

definition sample_waitlist :: WaitlistService where
  "sample_waitlist =
     snd (add_to_waitlist 2 ''w2'' (sample_waitlist_request ''P2'' ''prov-001'')
       (snd (add_to_waitlist 1 ''w1'' (sample_waitlist_request ''P1'' ''prov-001'')
          \<lparr>entries = []\<rparr>)))"

definition cancelled_service :: AppointmentService where
  "cancelled_service = snd (cancel_appointment 5 ''apt-u1'' (Some ''Patient request'') booked_service)"

definition held_availability :: AvailabilityService where
  "held_availability = snd (hold_slot 0 ''h1'' ''slot-b'' ''H1'' 10 sample_availability)"

definition held_booked_service :: AppointmentService where
  "held_booked_service =
     booked_service\<lparr>availability_service :=
       snd (hold_slot 0 ''h1'' ''slot-a'' ''H1'' 10 (availability_service booked_service))\<rparr>"

definition reschedule_to_two :: AppointmentUpdate where
  "reschedule_to_two =
     \<lparr>upd_scheduled_date = None, upd_scheduled_time = Some 50400, upd_reason = None,
      upd_notes = None\<rparr>"

section \<open>Lock manager\<close>

lemma acquire_lock_taken:
  "reclaimable now key c \<Longrightarrow> add_seconds now ttl = Some e \<Longrightarrow>
   acquire_lock now key ttl c =
     (Inr True, c\<lparr>locks := (locks c)(key \<mapsto> \<lparr>acquired_at = now, lock_expires_at = e\<rparr>)\<rparr>)"
  by (cases "locks c key") (simp_all add: acquire_lock_def install_lock_def reclaimable_def)

lemma acquire_lock_refused:
  "\<not> reclaimable now key c \<Longrightarrow> acquire_lock now key ttl c = (Inr False, c)"
  by (simp add: acquire_lock_def reclaimable_def split: option.splits)

lemma acquire_lock_overflow:
  "reclaimable now key c \<Longrightarrow> add_seconds now ttl = None \<Longrightarrow>
   acquire_lock now key ttl c = (Inl OverflowError, c\<lparr>locks := (locks c)(key := None)\<rparr>)"
  by (cases "locks c key")
     (simp_all add: acquire_lock_def install_lock_def reclaimable_def fun_upd_idem)

lemma reclaimable_iff:
  "reclaimable now key c \<longleftrightarrow>
     (locks c key = None \<or> (\<exists>lock. locks c key = Some lock \<and> lock_expires_at lock \<le> now))"
  by (auto simp: reclaimable_def split: option.splits)

lemma add_seconds_value: "add_seconds now ttl = Some e \<Longrightarrow> e = now + ttl"
  by (simp add: add_seconds_def split: if_splits)

text \<open>
  C2, as amended. For every key and every ttl for which \<open>now + ttl\<close> is a datetime,
  \<open>acquire_lock\<close> returns true exactly when the key has no record or its record's
  \<open>expires_at\<close> is not later than the current instant; in that case the table holds, for
  the key, a record with \<open>expires_at = now + ttl\<close> and is otherwise as before. In every other
  case it returns false and the lock table is unchanged. For a positive ttl a second acquire
  at the same instant, and any acquire before the ttl has elapsed, returns false; an acquire
  made once the ttl has elapsed returns true.
\<close>

theorem acquire_lock_semantics:
  assumes "add_seconds now ttl \<noteq> None"
  shows "(fst (acquire_lock now key ttl c) = Inr True \<longleftrightarrow>
            (locks c key = None
             \<or> (\<exists>lock. locks c key = Some lock \<and> lock_expires_at lock \<le> now)))
   \<and> (fst (acquire_lock now key ttl c) = Inr True \<longrightarrow>
        locks (snd (acquire_lock now key ttl c)) =
          (locks c)(key \<mapsto> \<lparr>acquired_at = now, lock_expires_at = now + ttl\<rparr>))
   \<and> (fst (acquire_lock now key ttl c) \<noteq> Inr True \<longrightarrow>
        acquire_lock now key ttl c = (Inr False, c))
   \<and> (fst (acquire_lock now key ttl c) = Inr True \<and> 0 < ttl \<longrightarrow>
        fst (acquire_lock now key ttl' (snd (acquire_lock now key ttl c))) = Inr False)
   \<and> (fst (acquire_lock now key ttl c) = Inr True \<and> now \<le> now' \<and> now' < now + ttl \<longrightarrow>
        fst (acquire_lock now' key ttl' (snd (acquire_lock now key ttl c))) = Inr False)
   \<and> (fst (acquire_lock now key ttl c) = Inr True \<and> now + ttl \<le> now'
         \<and> add_seconds now' ttl' \<noteq> None \<longrightarrow>
        fst (acquire_lock now' key ttl' (snd (acquire_lock now key ttl c))) = Inr True)"
proof -
  from assms obtain e where e: "add_seconds now ttl = Some e" by blast
  then have v: "e = now + ttl" by (rule add_seconds_value)
  show ?thesis
  proof (cases "reclaimable now key c")
    case False
    then show ?thesis
      by (simp add: acquire_lock_refused reclaimable_iff)
  next
    case True
    let ?c = "c\<lparr>locks := (locks c)(key \<mapsto> \<lparr>acquired_at = now, lock_expires_at = now + ttl\<rparr>)\<rparr>"
    have a: "acquire_lock now key ttl c = (Inr True, ?c)"
      using acquire_lock_taken [OF True e] v by simp
    have n: "\<And>t. now \<le> t \<Longrightarrow> t < now + ttl \<Longrightarrow> \<not> reclaimable t key ?c"
      by (simp add: reclaimable_def)
    have y: "\<And>t. now + ttl \<le> t \<Longrightarrow> reclaimable t key ?c"
      by (simp add: reclaimable_def)
    have 4: "0 < ttl \<longrightarrow> fst (acquire_lock now key ttl' ?c) = Inr False"
      using n [of now] by (simp add: acquire_lock_refused)
    have 5: "now \<le> now' \<and> now' < now + ttl \<longrightarrow> fst (acquire_lock now' key ttl' ?c) = Inr False"
      using n [of now'] by (simp add: acquire_lock_refused)
    have 6: "now + ttl \<le> now' \<and> add_seconds now' ttl' \<noteq> None \<longrightarrow>
               fst (acquire_lock now' key ttl' ?c) = Inr True"
      using y [of now'] by (auto simp: acquire_lock_taken)
    from True 4 5 6 show ?thesis
      unfolding a by (simp add: reclaimable_iff)
  qed
qed

theorem acquire_lock_semantics_witness:
  "add_seconds 100 30 \<noteq> None
   \<and> fst (acquire_lock 100 ''k'' 30 \<lparr>locks = Map.empty\<rparr>) = Inr True
   \<and> locks (snd (acquire_lock 100 ''k'' 30 \<lparr>locks = Map.empty\<rparr>)) ''k''
        = Some \<lparr>acquired_at = 100, lock_expires_at = 130\<rparr>
   \<and> fst (acquire_lock 100 ''k'' 30 (snd (acquire_lock 100 ''k'' 30 \<lparr>locks = Map.empty\<rparr>)))
        = Inr False
   \<and> fst (acquire_lock 131 ''k'' 30 (snd (acquire_lock 100 ''k'' 30 \<lparr>locks = Map.empty\<rparr>)))
        = Inr True"
proof -
  have h: "add_seconds 100 30 \<noteq> None" and h': "add_seconds 131 30 \<noteq> None"
    by (simp_all add: add_seconds_def timedelta_ok_def)
  from h h' acquire_lock_semantics [OF h, of "''k''" "\<lparr>locks = Map.empty\<rparr>" 30 131]
  show ?thesis by simp
qed

text \<open>
  C2 as first stated fails for a ttl that is not positive and for a ttl out of range: with
  ttl 0 the second of two acquires at the same instant returns true, and with a ttl of
  \<open>10^14\<close> seconds an acquire of a key without a record raises and installs nothing.
\<close>

theorem acquire_lock_semantics_counterexample:
  "fst (acquire_lock 100 ''k'' 0 \<lparr>locks = Map.empty\<rparr>) = Inr True
   \<and> fst (acquire_lock 100 ''k'' 0 (snd (acquire_lock 100 ''k'' 0 \<lparr>locks = Map.empty\<rparr>)))
        = Inr True
   \<and> locks \<lparr>locks = Map.empty\<rparr> ''k'' = None
   \<and> fst (acquire_lock 100 ''k'' 100000000000000 \<lparr>locks = Map.empty\<rparr>) = Inl OverflowError
   \<and> locks (snd (acquire_lock 100 ''k'' 100000000000000 \<lparr>locks = Map.empty\<rparr>)) ''k'' = None"
  by (simp add: acquire_lock_def install_lock_def add_seconds_def timedelta_ok_def)

section \<open>Slot store\<close>

lemma is_available_loop_has_key:
  "is_available_loop xs p d t \<Longrightarrow> \<exists>x \<in> set xs. same_key (snd x) p d t"
  by (induction xs p d t rule: is_available_loop.induct) (auto split: if_splits)

lemma is_available_mark_booked: "\<not> is_available_loop (mark_booked_loop xs p d t) p d t"
  by (induction xs p d t rule: mark_booked_loop.induct) (auto simp: same_key_def)

lemma is_available_mark_available:
  "is_available_loop (mark_available_loop xs p d t) p d t
     = (\<exists>x \<in> set xs. same_key (snd x) p d t)"
  by (induction xs p d t rule: mark_available_loop.induct) (auto simp: same_key_def)

lemma has_key_mark_booked:
  "(\<exists>x \<in> set (mark_booked_loop xs p d t). same_key (snd x) p' d' t')
     = (\<exists>x \<in> set xs. same_key (snd x) p' d' t')"
  by (induction xs p d t rule: mark_booked_loop.induct) (auto simp: same_key_def)

section \<open>Booking\<close>

lemma create_appointment_refused:
  "\<not> reclaimable now (slot_lock_key (req_provider_id request) (req_scheduled_date request)
        (req_scheduled_time request)) (cache svc) \<Longrightarrow>
   create_appointment now uid request svc = (Inl SlotBeingBooked, svc)"
  by (simp add: create_appointment_def Let_def acquire_lock_refused)

lemma create_appointment_clock_overflow:
  "reclaimable now (slot_lock_key (req_provider_id request) (req_scheduled_date request)
        (req_scheduled_time request)) (cache svc) \<Longrightarrow> add_seconds now 30 = None \<Longrightarrow>
   create_appointment now uid request svc =
     (Inl OverflowError,
      svc\<lparr>cache := (cache svc)\<lparr>locks := (locks (cache svc))
        (slot_lock_key (req_provider_id request) (req_scheduled_date request)
           (req_scheduled_time request) := None)\<rparr>\<rparr>)"
  by (simp add: create_appointment_def Let_def acquire_lock_overflow)

lemma create_appointment_unavailable:
  assumes "reclaimable now (slot_lock_key (req_provider_id request) (req_scheduled_date request)
        (req_scheduled_time request)) (cache svc)"
    and "add_seconds now 30 \<noteq> None"
    and "\<not> is_slot_available (req_provider_id request) (req_scheduled_date request)
              (req_scheduled_time request) (availability_service svc)"
  shows "create_appointment now uid request svc =
     (Inl SlotNoLongerAvailable,
      svc\<lparr>cache := (cache svc)\<lparr>locks := (locks (cache svc))
        (slot_lock_key (req_provider_id request) (req_scheduled_date request)
           (req_scheduled_time request) := None)\<rparr>\<rparr>)"
  using assms
  by (auto simp: create_appointment_def Let_def acquire_lock_taken
        create_appointment_locked_def release_lock_def)

lemma create_appointment_end_overflow:
  assumes "reclaimable now (slot_lock_key (req_provider_id request) (req_scheduled_date request)
        (req_scheduled_time request)) (cache svc)"
    and "add_seconds now 30 \<noteq> None"
    and "is_slot_available (req_provider_id request) (req_scheduled_date request)
              (req_scheduled_time request) (availability_service svc)"
    and "add_minutes (combine (req_scheduled_date request) (req_scheduled_time request))
           (req_duration_minutes request) = None"
  shows "create_appointment now uid request svc =
     (Inl OverflowError,
      svc\<lparr>cache := (cache svc)\<lparr>locks := (locks (cache svc))
        (slot_lock_key (req_provider_id request) (req_scheduled_date request)
           (req_scheduled_time request) := None)\<rparr>\<rparr>)"
  using assms
  by (auto simp: create_appointment_def Let_def acquire_lock_taken
        create_appointment_locked_def release_lock_def)

lemma create_appointment_available:
  assumes "reclaimable now (slot_lock_key (req_provider_id request) (req_scheduled_date request)
        (req_scheduled_time request)) (cache svc)"
    and "add_seconds now 30 \<noteq> None"
    and "is_slot_available (req_provider_id request) (req_scheduled_date request)
              (req_scheduled_time request) (availability_service svc)"
    and "add_minutes (combine (req_scheduled_date request) (req_scheduled_time request))
           (req_duration_minutes request) \<noteq> None"
  shows "\<exists>a. create_appointment now uid request svc =
     (Inr a,
      svc\<lparr>appointments := (appointments svc)(''apt-'' @ uid \<mapsto> a),
          availability_service := mark_slot_booked (req_provider_id request)
             (req_scheduled_date request) (req_scheduled_time request) (availability_service svc),
          cache := (cache svc)\<lparr>locks := (locks (cache svc))
            (slot_lock_key (req_provider_id request) (req_scheduled_date request)
               (req_scheduled_time request) := None)\<rparr>\<rparr>)
     \<and> status a = SCHEDULED \<and> apt_id a = ''apt-'' @ uid \<and> patient_id a = req_patient_id request
     \<and> provider_id a = req_provider_id request
     \<and> scheduled_time a = combine (req_scheduled_date request) (req_scheduled_time request)"
  using assms
  by (auto simp: create_appointment_def Let_def acquire_lock_taken
        create_appointment_locked_def release_lock_def)

text \<open>
  C3. Whenever \<open>create_appointment\<close> acquires the slot lock, the lock key has no record
  when the call returns, whether it returns an appointment or fails. When the call fails
  because the slot is missing or not available, the appointment store and the availability
  service are exactly as before the call; and this is the failure that an acquired lock
  with an unavailable slot produces.
\<close>

theorem create_appointment_lock_released_and_atomic:
  "(fst (acquire_lock now (slot_lock_key (req_provider_id request) (req_scheduled_date request)
          (req_scheduled_time request)) 30 (cache svc)) = Inr True \<longrightarrow>
      locks (cache (snd (create_appointment now uid request svc)))
        (slot_lock_key (req_provider_id request) (req_scheduled_date request)
          (req_scheduled_time request)) = None)
   \<and> ((\<exists>e. fst (create_appointment now uid request svc) = Inl e \<and> kind e = SlotUnavailable) \<longrightarrow>
        appointments (snd (create_appointment now uid request svc)) = appointments svc
        \<and> availability_service (snd (create_appointment now uid request svc))
            = availability_service svc)
   \<and> (fst (acquire_lock now (slot_lock_key (req_provider_id request) (req_scheduled_date request)
          (req_scheduled_time request)) 30 (cache svc)) = Inr True
       \<and> \<not> is_slot_available (req_provider_id request) (req_scheduled_date request)
              (req_scheduled_time request) (availability_service svc) \<longrightarrow>
        fst (create_appointment now uid request svc) = Inl SlotNoLongerAvailable)"
proof (cases "reclaimable now (slot_lock_key (req_provider_id request) (req_scheduled_date request)
          (req_scheduled_time request)) (cache svc)")
  case False
  then show ?thesis
    by (simp add: create_appointment_refused acquire_lock_refused)
next
  case r: True
  show ?thesis
  proof (cases "add_seconds now 30")
    case None
    with r show ?thesis
      by (simp add: create_appointment_clock_overflow acquire_lock_overflow)
  next
    case (Some e)
    then have s: "add_seconds now 30 \<noteq> None" by simp
    show ?thesis
    proof (cases "is_slot_available (req_provider_id request) (req_scheduled_date request)
              (req_scheduled_time request) (availability_service svc)")
      case False
      with r s show ?thesis
        by (simp add: create_appointment_unavailable)
    next
      case True
      show ?thesis
      proof (cases "add_minutes (combine (req_scheduled_date request) (req_scheduled_time request))
           (req_duration_minutes request)")
        case None
        with r s True show ?thesis
          by (simp add: create_appointment_end_overflow)
      next
        case (Some ends)
        then have m: "add_minutes (combine (req_scheduled_date request)
           (req_scheduled_time request)) (req_duration_minutes request) \<noteq> None" by simp
        from create_appointment_available [OF r s True m, of uid]
        obtain a where "create_appointment now uid request svc =
          (Inr a,
           svc\<lparr>appointments := (appointments svc)(''apt-'' @ uid \<mapsto> a),
             availability_service := mark_slot_booked (req_provider_id request)
               (req_scheduled_date request) (req_scheduled_time request) (availability_service svc),
             cache := (cache svc)\<lparr>locks := (locks (cache svc))
               (slot_lock_key (req_provider_id request) (req_scheduled_date request)
                 (req_scheduled_time request) := None)\<rparr>\<rparr>)" by blast
        with True show ?thesis by simp
      qed
    qed
  qed
qed

theorem create_appointment_lock_released_and_atomic_witness:
  "fst (create_appointment 5 ''u2'' (sample_request ''R2'') booked_service) = Inl SlotNoLongerAvailable
   \<and> locks (cache (snd (create_appointment 5 ''u2'' (sample_request ''R2'') booked_service)))
         (slot_lock_key ''prov-001'' 20 36000) = None
   \<and> appointments (snd (create_appointment 5 ''u2'' (sample_request ''R2'') booked_service))
       = appointments booked_service
   \<and> availability_service (snd (create_appointment 5 ''u2'' (sample_request ''R2'') booked_service))
       = availability_service booked_service"
proof -
  have k: "req_provider_id (sample_request ''R2'') = ''prov-001''"
          "req_scheduled_date (sample_request ''R2'') = 20"
          "req_scheduled_time (sample_request ''R2'') = 36000"
    by (simp_all add: sample_request_def)
  have l: "fst (acquire_lock 5 (slot_lock_key ''prov-001'' 20 36000) 30 (cache booked_service))
             = Inr True"
    by (simp add: acquire_lock_def install_lock_def add_seconds_def timedelta_ok_def
          booked_service_def)
  have u: "\<not> is_slot_available ''prov-001'' 20 36000 (availability_service booked_service)"
    by (simp add: booked_service_def is_slot_available_def same_key_def slot_a_def slot_b_def
          generated_slot_def)
  from create_appointment_lock_released_and_atomic
         [of 5 "sample_request ''R2''" booked_service "''u2''"] l u
  show ?thesis unfolding k by simp
qed

lemma sample_booking:
  "create_appointment 0 ''u1'' (sample_request ''R1'') sample_service
     = (Inr booked_appointment, booked_service)"
  by (simp add: create_appointment_def Let_def acquire_lock_def install_lock_def add_seconds_def timedelta_ok_def
        create_appointment_locked_def
        release_lock_def sample_request_def sample_service_def sample_availability_def
        is_slot_available_def mark_slot_booked_def same_key_def slot_a_def slot_b_def slot_c_def
        generated_slot_def booked_appointment_def booked_service_def combine_def add_minutes_def
        date_of_def time_of_def)

section \<open>Search over the slot store\<close>

lemma search_loop_filter:
  "search_loop search xs acc = acc @ filter (\<lambda>s. \<not> skipped search s) xs"
  by (induction xs arbitrary: acc) simp_all

lemma search_slots_code:
  "search_slots search svc =
     slice_to (limit search)
       (sort_key (\<lambda>s. (slot_date s, start_time s))
          (filter (\<lambda>s. \<not> skipped search s) (map snd (slots svc))))"
  by (simp add: search_slots_def search_loop_filter)

lemma search_slots_without_unavailable:
  "\<not> available slot \<Longrightarrow>
   search_slots search (svc\<lparr>slots := pre @ (k, slot) # post\<rparr>)
     = search_slots search (svc\<lparr>slots := pre @ post\<rparr>)"
  by (simp add: search_slots_code skipped_def)

lemma search_slots_member:
  assumes "x \<in> set (slots svc)" and "\<not> skipped search (snd x)"
    and "int (length (filter (\<lambda>s. \<not> skipped search s) (map snd (slots svc)))) \<le> limit search"
  shows "snd x \<in> set (search_slots search svc)"
proof -
  let ?m = "filter (\<lambda>s. \<not> skipped search s) (map snd (slots svc))"
  let ?o = "\<lambda>s. (slot_date s, start_time s)"
  from assms(3) have "length ?m \<le> nat (limit search)" by linarith
  then have "length (sort_key ?o ?m) \<le> nat (limit search)"
    by (simp only: length_sort)
  then have "take (nat (limit search)) (sort_key ?o ?m) = sort_key ?o ?m"
    by (rule take_all)
  moreover from assms(3) have "0 \<le> limit search" by linarith
  ultimately have "search_slots search svc = sort_key ?o ?m"
    by (simp add: search_slots_code slice_to_def)
  moreover from assms(1,2) have "snd x \<in> set ?m" by simp
  ultimately show ?thesis by (simp only: set_sort)
qed

section \<open>Booking, refusal, cancellation and booking again\<close>

lemma is_available_loop_split:
  "is_available_loop xs p d t \<Longrightarrow>
   \<exists>pre k slot post. xs = pre @ (k, slot) # post \<and> (\<forall>x \<in> set pre. \<not> same_key (snd x) p d t)
      \<and> same_key slot p d t \<and> available slot"
proof (induction xs p d t rule: is_available_loop.induct)
  case (1 p d t)
  then show ?case by simp
next
  case (2 k slot rest p d t)
  show ?case
  proof (cases "same_key slot p d t")
    case True
    with 2 have "(k, slot) # rest = [] @ (k, slot) # rest \<and> (\<forall>x \<in> set []. \<not> same_key (snd x) p d t)
        \<and> same_key slot p d t \<and> available slot" by simp
    then show ?thesis by blast
  next
    case False
    with 2 obtain pre k' slot' post where
      "rest = pre @ (k', slot') # post" "\<forall>x \<in> set pre. \<not> same_key (snd x) p d t"
      "same_key slot' p d t" "available slot'" by auto
    with False have "(k, slot) # rest = ((k, slot) # pre) @ (k', slot') # post
        \<and> (\<forall>x \<in> set ((k, slot) # pre). \<not> same_key (snd x) p d t)
        \<and> same_key slot' p d t \<and> available slot'" by simp
    then show ?thesis by blast
  qed
qed

lemma mark_booked_split:
  "\<forall>x \<in> set pre. \<not> same_key (snd x) p d t \<Longrightarrow> same_key slot p d t \<Longrightarrow>
   mark_booked_loop (pre @ (k, slot) # post) p d t = pre @ (k, slot\<lparr>available := False\<rparr>) # post"
  by (induction pre) auto

lemma mark_available_split:
  "\<forall>x \<in> set pre. \<not> same_key (snd x) p d t \<Longrightarrow> same_key slot p d t \<Longrightarrow>
   mark_available_loop (pre @ (k, slot) # post) p d t = pre @ (k, slot\<lparr>available := True\<rparr>) # post"
  by (induction pre) auto

text \<open>
  C1, as amended. Start from a state in which the first slot with the natural key
  \<open>(provider, date, time)\<close> is available and no booking of that key is in progress
  (its lock key has no record in force), and let the clock and the requested durations stay
  within the range of datetimes (the lock expiry \<open>now + 30\<close> and the end time
  \<open>start + duration\<close> exist). Then booking the key for a first requester returns an
  appointment with status \<open>SCHEDULED\<close>, and that slot, now marked unavailable, is invisible
  to every search: each search answers as it would on the store without the slot. Booking
  the same key for a second requester then fails with
  \<^verbatim>\<open>Selected slot is no longer available\<close> and changes no slot. Cancelling the first
  appointment succeeds and restores the availability service to what it was before the
  first booking, so the slot is available and every search that does not filter it out and
  whose limit does not cut the answer returns it. Booking the key for the second requester
  after the cancellation succeeds.
\<close>

theorem sequential_double_booking:
  assumes avail: "is_slot_available p d t (availability_service s0)"
    and free: "reclaimable now1 (slot_lock_key p d t) (cache s0)"
    and r1: "req_provider_id r1 = p" "req_scheduled_date r1 = d" "req_scheduled_time r1 = t"
    and r2: "req_provider_id r2 = p" "req_scheduled_date r2 = d" "req_scheduled_time r2 = t"
    and clock: "add_seconds now1 30 \<noteq> None" "add_seconds now2 30 \<noteq> None"
               "add_seconds now4 30 \<noteq> None"
    and ends: "add_minutes (combine d t) (req_duration_minutes r1) \<noteq> None"
              "add_minutes (combine d t) (req_duration_minutes r2) \<noteq> None"
  shows "\<exists>a1 s1 e s2 s3 a2 s4 pre k slot post.
      create_appointment now1 uid1 r1 s0 = (Inr a1, s1)
    \<and> status a1 = SCHEDULED \<and> patient_id a1 = req_patient_id r1
    \<and> slots (availability_service s0) = pre @ (k, slot) # post
    \<and> (\<forall>x \<in> set pre. \<not> same_key (snd x) p d t) \<and> same_key slot p d t \<and> available slot
    \<and> slots (availability_service s1) = pre @ (k, slot\<lparr>available := False\<rparr>) # post
    \<and> (\<forall>search. search_slots search (availability_service s1)
                 = search_slots search ((availability_service s0)\<lparr>slots := pre @ post\<rparr>))
    \<and> create_appointment now2 uid2 r2 s1 = (Inl e, s2) \<and> kind e = SlotUnavailable
    \<and> availability_service s2 = availability_service s1
    \<and> cancel_appointment now3 (apt_id a1) why s2 = (Inr (), s3)
    \<and> is_slot_available p d t (availability_service s3)
    \<and> availability_service s3 = availability_service s0
    \<and> (\<forall>search.
          \<not> skipped search slot
          \<and> int (length (filter (\<lambda>x. \<not> skipped search x)
                           (map snd (slots (availability_service s3))))) \<le> limit search
          \<longrightarrow> slot \<in> set (search_slots search (availability_service s3)))
    \<and> create_appointment now4 uid4 r2 s3 = (Inr a2, s4)
    \<and> status a2 = SCHEDULED \<and> patient_id a2 = req_patient_id r2"
proof -
  let ?k = "slot_lock_key p d t"
  let ?unlocked = "(cache s0)\<lparr>locks := (locks (cache s0))(?k := None)\<rparr>"
  let ?booked = "mark_slot_booked p d t (availability_service s0)"
  from is_available_loop_split [of "slots (availability_service s0)" p d t] avail
  obtain pre k slot post where
      sp: "slots (availability_service s0) = pre @ (k, slot) # post"
      and pre: "\<forall>x \<in> set pre. \<not> same_key (snd x) p d t"
      and sl: "same_key slot p d t" "available slot"
    unfolding is_slot_available_def by blast
  from sl(1) have sl': "same_key (slot\<lparr>available := False\<rparr>) p d t"
    by (simp add: same_key_def)
  have b: "slots ?booked = pre @ (k, slot\<lparr>available := False\<rparr>) # post"
    by (simp add: mark_slot_booked_def sp mark_booked_split [OF pre sl(1)])
  have bsvc: "?booked = (availability_service s0)\<lparr>slots := pre @ (k, slot\<lparr>available := False\<rparr>) # post\<rparr>"
    by (simp add: mark_slot_booked_def sp mark_booked_split [OF pre sl(1)])
  have "mark_available_loop (mark_booked_loop (pre @ (k, slot) # post) p d t) p d t
          = pre @ (k, slot) # post"
    using sl(2)
    by (simp add: mark_booked_split [OF pre sl(1)] mark_available_split [OF pre sl'])
  then have fr: "mark_slot_available p d t ?booked = availability_service s0"
    by (simp add: mark_slot_available_def mark_slot_booked_def sp [symmetric])
  from create_appointment_available [of now1 r1 s0 uid1] avail free r1 clock(1) ends(1)
  obtain a1 where c1: "create_appointment now1 uid1 r1 s0 =
        (Inr a1, s0\<lparr>appointments := (appointments s0)(''apt-'' @ uid1 \<mapsto> a1),
                     availability_service := ?booked, cache := ?unlocked\<rparr>)"
    and a1: "status a1 = SCHEDULED" "apt_id a1 = ''apt-'' @ uid1"
      "patient_id a1 = req_patient_id r1" "provider_id a1 = p"
      "scheduled_time a1 = combine d t"
    by auto
  let ?s1 = "s0\<lparr>appointments := (appointments s0)(''apt-'' @ uid1 \<mapsto> a1),
                availability_service := ?booked, cache := ?unlocked\<rparr>"
  have hid: "\<forall>search. search_slots search (availability_service ?s1)
                 = search_slots search ((availability_service s0)\<lparr>slots := pre @ post\<rparr>)"
    using search_slots_without_unavailable [where slot = "slot\<lparr>available := False\<rparr>"
            and svc = "availability_service s0" and pre = pre and k = k and post = post]
    by (simp add: bsvc)
  have f1: "reclaimable now2 ?k (cache ?s1)" by (simp add: reclaimable_def)
  have u1: "\<not> is_slot_available p d t (availability_service ?s1)"
    by (simp add: is_slot_available_def mark_slot_booked_def is_available_mark_booked)
  from create_appointment_unavailable [of now2 r2 ?s1 uid2] f1 u1 r2 clock(2)
  have c2: "create_appointment now2 uid2 r2 ?s1 = (Inl SlotNoLongerAvailable, ?s1)"
    by simp
  let ?a1c = "a1\<lparr>status := CANCELLED, cancellation_reason := why,
                    cancelled_at := Some now3, updated_at := now3\<rparr>"
  let ?s3 = "?s1\<lparr>appointments := (appointments ?s1)(''apt-'' @ uid1 \<mapsto> ?a1c),
                  availability_service := availability_service s0\<rparr>"
  have c3: "cancel_appointment now3 (apt_id a1) why ?s1 = (Inr (), ?s3)"
    using a1 by (simp add: cancel_appointment_def Let_def combine_def date_of_def time_of_def fr)
  have av3: "is_slot_available p d t (availability_service ?s3)"
    using avail by simp
  have srch: "\<forall>search.
          \<not> skipped search slot
          \<and> int (length (filter (\<lambda>x. \<not> skipped search x)
                           (map snd (slots (availability_service ?s3))))) \<le> limit search
          \<longrightarrow> slot \<in> set (search_slots search (availability_service ?s3))"
  proof (intro allI impI)
    fix search :: AvailabilitySearch
    assume h: "\<not> skipped search slot
          \<and> int (length (filter (\<lambda>x. \<not> skipped search x)
                           (map snd (slots (availability_service ?s3))))) \<le> limit search"
    have "(k, slot) \<in> set (slots (availability_service ?s3))" by (simp add: sp)
    from search_slots_member [OF this, of search] h
    show "slot \<in> set (search_slots search (availability_service ?s3))" by simp
  qed
  have f3: "reclaimable now4 ?k (cache ?s3)" by (simp add: reclaimable_def)
  from create_appointment_available [of now4 r2 ?s3 uid4] f3 av3 r2 clock(3) ends(2)
  obtain a2 s4 where c4: "create_appointment now4 uid4 r2 ?s3 = (Inr a2, s4)"
    and a2: "status a2 = SCHEDULED" "patient_id a2 = req_patient_id r2"
    by auto
  have b1: "slots (availability_service ?s1) = pre @ (k, slot\<lparr>available := False\<rparr>) # post"
    using b by simp
  have e3: "availability_service ?s3 = availability_service s0" by simp
  have k2: "kind SlotNoLongerAvailable = SlotUnavailable" by simp
  from c1 a1(1,3) sp pre sl b1 hid c2 k2 c3 av3 e3 srch c4 a2 show ?thesis
    by (intro exI [where x = a1] exI [where x = "?s1"] exI [where x = SlotNoLongerAvailable]
          exI [where x = "?s3"] exI [where x = a2] exI [where x = s4] exI [where x = pre]
          exI [where x = k] exI [where x = slot] exI [where x = post] conjI refl)
qed


theorem sequential_double_booking_witness:
  "is_slot_available ''prov-001'' 20 36000 (availability_service sample_service)
   \<and> reclaimable 0 (slot_lock_key ''prov-001'' 20 36000) (cache sample_service)
   \<and> add_seconds 0 30 \<noteq> None
   \<and> add_minutes (combine 20 36000) (req_duration_minutes (sample_request ''R1'')) \<noteq> None
   \<and> (\<exists>a1 s1 e s2 s3 a2 s4.
        create_appointment 0 ''u1'' (sample_request ''R1'') sample_service = (Inr a1, s1)
      \<and> status a1 = SCHEDULED \<and> patient_id a1 = ''R1''
      \<and> create_appointment 1 ''u2'' (sample_request ''R2'') s1 = (Inl e, s2)
      \<and> kind e = SlotUnavailable
      \<and> cancel_appointment 2 (apt_id a1) (Some ''Patient request'') s2 = (Inr (), s3)
      \<and> is_slot_available ''prov-001'' 20 36000 (availability_service s3)
      \<and> availability_service s3 = availability_service sample_service
      \<and> create_appointment 3 ''u3'' (sample_request ''R2'') s3 = (Inr a2, s4)
      \<and> status a2 = SCHEDULED \<and> patient_id a2 = ''R2'')"
proof -
  have av: "is_slot_available ''prov-001'' 20 36000 (availability_service sample_service)"
    by (simp add: sample_service_def sample_availability_def is_slot_available_def same_key_def
          slot_a_def slot_b_def generated_slot_def)
  have fr: "reclaimable 0 (slot_lock_key ''prov-001'' 20 36000) (cache sample_service)"
    by (simp add: reclaimable_def sample_service_def)
  have k1: "req_provider_id (sample_request ''R1'') = ''prov-001''"
           "req_scheduled_date (sample_request ''R1'') = 20"
           "req_scheduled_time (sample_request ''R1'') = 36000"
    and k2: "req_provider_id (sample_request ''R2'') = ''prov-001''"
           "req_scheduled_date (sample_request ''R2'') = 20"
           "req_scheduled_time (sample_request ''R2'') = 36000"
    and p: "req_patient_id (sample_request ''R1'') = ''R1''"
           "req_patient_id (sample_request ''R2'') = ''R2''"
    by (simp_all add: sample_request_def)
  have c: "add_seconds 0 30 \<noteq> None" "add_seconds 1 30 \<noteq> None" "add_seconds 3 30 \<noteq> None"
    by (simp_all add: add_seconds_def timedelta_ok_def)
  have m: "add_minutes (combine 20 36000) (req_duration_minutes (sample_request ''R1'')) \<noteq> None"
          "add_minutes (combine 20 36000) (req_duration_minutes (sample_request ''R2'')) \<noteq> None"
    by (simp_all add: add_minutes_def timedelta_ok_def combine_def date_of_def time_of_def
          sample_request_def)
  from sequential_double_booking [OF av fr k1 k2 c m, where ?uid1.0 = "''u1''"
         and ?uid2.0 = "''u2''" and ?uid4.0 = "''u3''" and ?now3.0 = 2
         and why = "Some ''Patient request''"]
  obtain a1 s1 e s2 s3 a2 s4 where
      "create_appointment 0 ''u1'' (sample_request ''R1'') sample_service = (Inr a1, s1)"
      "status a1 = SCHEDULED" "patient_id a1 = req_patient_id (sample_request ''R1'')"
      "create_appointment 1 ''u2'' (sample_request ''R2'') s1 = (Inl e, s2)"
      "kind e = SlotUnavailable"
      "cancel_appointment 2 (apt_id a1) (Some ''Patient request'') s2 = (Inr (), s3)"
      "is_slot_available ''prov-001'' 20 36000 (availability_service s3)"
      "availability_service s3 = availability_service sample_service"
      "create_appointment 3 ''u3'' (sample_request ''R2'') s3 = (Inr a2, s4)"
      "status a2 = SCHEDULED" "patient_id a2 = req_patient_id (sample_request ''R2'')"
    by (elim exE conjE)
  with av fr p c(1) m(1) show ?thesis by (simp del: split_paired_Ex)
qed

text \<open>
  C1 as first stated fails for a request whose duration takes the end time out of the range
  of datetimes: the slot is available and no booking is in progress, and the first booking
  raises \<^verbatim>\<open>OverflowError\<close> and stores nothing.
\<close>

theorem sequential_double_booking_counterexample:
  "is_slot_available ''prov-001'' 20 36000 (availability_service sample_service)
   \<and> reclaimable 0 (slot_lock_key ''prov-001'' 20 36000) (cache sample_service)
   \<and> create_appointment 0 ''u1''
         ((sample_request ''R1'')\<lparr>req_duration_minutes := 10000000000\<rparr>) sample_service
       = (Inl OverflowError, sample_service)"
  by (simp add: sample_service_def sample_availability_def is_slot_available_def same_key_def
        slot_a_def slot_b_def generated_slot_def reclaimable_def create_appointment_def Let_def
        acquire_lock_def install_lock_def add_seconds_def timedelta_ok_def
        create_appointment_locked_def add_minutes_def combine_def date_of_def time_of_def
        sample_request_def release_lock_def)

section \<open>Rescheduling\<close>

lemma update_appointment_destination_unavailable:
  assumes "appointments svc appointment_id = Some a"
    and "status a \<noteq> CANCELLED"
    and "upd_scheduled_date update \<noteq> None \<or> upd_scheduled_time update \<noteq> None"
    and "\<not> is_slot_available (provider_id a)
             (case upd_scheduled_date update of Some d \<Rightarrow> d | None \<Rightarrow> date_of (scheduled_time a))
             (case upd_scheduled_time update of Some t \<Rightarrow> t | None \<Rightarrow> time_of (scheduled_time a))
             (availability_service svc)"
  shows "update_appointment now appointment_id update svc = (Inl NewSlotNotAvailable, svc)"
  using assms by (simp add: update_appointment_def Let_def)

lemma held_booked_slots:
  "slots (availability_service held_booked_service) =
     [(''slot-a'', slot_a\<lparr>held_by := Some ''H1'', held_until := Some 600\<rparr>),
      (''slot-b'', slot_b\<lparr>available := False\<rparr>), (''slot-c'', slot_c)]"
  by (simp add: held_booked_service_def booked_service_def hold_slot_def Let_def
        add_seconds_def timedelta_ok_def slot_a_def generated_slot_def)

text \<open>
  C5, evaluated where the code departs from it: the reservation \<open>apt-u1\<close> is scheduled on
  \<open>slot-b\<close>, and \<open>slot-a\<close> is held by \<open>H1\<close> until instant 600. At instant 60
  \<open>update_appointment\<close> with the time of \<open>slot-a\<close> returns the moved reservation and
  marks the source slot available, although the destination is held and so not available.
  When the destination is booked or missing the call does fail and changes nothing, as
  \<open>update_appointment_destination_unavailable\<close> shows.
\<close>

theorem reschedule_onto_held_slot_succeeds:
  "appointments held_booked_service ''apt-u1'' = Some booked_appointment
   \<and> status booked_appointment = SCHEDULED
   \<and> scheduled_time booked_appointment = (20, 36000)
   \<and> (\<exists>slot. map_of (slots (availability_service held_booked_service)) ''slot-a'' = Some slot
         \<and> same_key slot ''prov-001'' 20 50400
         \<and> held_by slot = Some ''H1'' \<and> held_until slot = Some 600)
   \<and> (\<exists>a. fst (update_appointment 60 ''apt-u1'' reschedule_to_two held_booked_service) = Inr a
         \<and> scheduled_time a = (20, 50400))
   \<and> is_slot_available ''prov-001'' 20 36000
        (availability_service
           (snd (update_appointment 60 ''apt-u1'' reschedule_to_two held_booked_service)))"
proof -
  have 1: "appointments held_booked_service ''apt-u1'' = Some booked_appointment"
    by (simp add: held_booked_service_def booked_service_def)
  have 2: "status booked_appointment = SCHEDULED"
          "scheduled_time booked_appointment = (20, 36000)"
          "provider_id booked_appointment = ''prov-001''"
    by (simp_all add: booked_appointment_def)
  have 3: "\<exists>slot. map_of (slots (availability_service held_booked_service)) ''slot-a'' = Some slot
         \<and> same_key slot ''prov-001'' 20 50400
         \<and> held_by slot = Some ''H1'' \<and> held_until slot = Some 600"
    by (simp add: held_booked_slots same_key_def slot_a_def generated_slot_def)
  have av: "is_slot_available ''prov-001'' 20 50400 (availability_service held_booked_service)"
    by (simp add: is_slot_available_def held_booked_slots same_key_def slot_a_def
          generated_slot_def)
  have u: "update_appointment 60 ''apt-u1'' reschedule_to_two held_booked_service =
      (Inr (booked_appointment\<lparr>scheduled_time := (20, 50400), updated_at := 60\<rparr>),
       held_booked_service
         \<lparr>appointments := (appointments held_booked_service)
            (''apt-u1'' \<mapsto> booked_appointment\<lparr>scheduled_time := (20, 50400), updated_at := 60\<rparr>),
          availability_service :=
            mark_slot_booked ''prov-001'' 20 50400
              (mark_slot_available ''prov-001'' 20 36000
                 (availability_service held_booked_service))\<rparr>)"
    using 1 2 av
    by (simp add: update_appointment_def Let_def reschedule_to_two_def date_of_def time_of_def
          combine_def update_fields_def)
  have 4: "is_slot_available ''prov-001'' 20 36000
             (mark_slot_booked ''prov-001'' 20 50400
                (mark_slot_available ''prov-001'' 20 36000
                   (availability_service held_booked_service)))"
    by (simp add: is_slot_available_def mark_slot_booked_def mark_slot_available_def
          held_booked_slots same_key_def slot_a_def slot_b_def generated_slot_def)
  from 1 2 3 4 show ?thesis unfolding u by simp
qed

theorem reschedule_onto_held_slot_succeeds_witness:
  "upd_scheduled_time reschedule_to_two = Some 50400
   \<and> (\<exists>a. fst (update_appointment 60 ''apt-u1'' reschedule_to_two held_booked_service) = Inr a
         \<and> scheduled_time a \<noteq> scheduled_time booked_appointment)"
proof -
  have "upd_scheduled_time reschedule_to_two = Some 50400"
    by (simp add: reschedule_to_two_def)
  moreover from reschedule_onto_held_slot_succeeds
  obtain a where "fst (update_appointment 60 ''apt-u1'' reschedule_to_two held_booked_service)
                    = Inr a" "scheduled_time a = (20, 50400)"
      and "scheduled_time booked_appointment = (20, 36000)"
    by (elim exE conjE)
  ultimately show ?thesis by auto
qed

section \<open>The search contract\<close>

lemma state_of_flag:
  "state_of now slot \<noteq> Held \<Longrightarrow> state_of now slot = Available \<longleftrightarrow> available slot"
  by (simp add: state_of_def split: if_splits)

lemma skipped_unfold:
  "skipped search slot \<longleftrightarrow>
     (\<not> available slot
      \<or> slot_date slot < start_date search \<or> end_date search < slot_date slot
      \<or> (truthy (search_provider_id search)
           \<and> slot_provider_id slot \<noteq> the (search_provider_id search))
      \<or> (truthy (search_location_id search)
           \<and> slot_location_id slot \<noteq> the (search_location_id search))
      \<or> (truthy (search_appointment_type search)
           \<and> the (search_appointment_type search) \<notin> set (appointment_types slot))
      \<or> (truthy (time_of_day search)
           \<and> ((the (time_of_day search) = ''morning'' \<and> 12 \<le> hour (start_time slot))
                \<or> (the (time_of_day search) = ''afternoon''
                     \<and> (hour (start_time slot) < 12 \<or> 17 \<le> hour (start_time slot)))
                \<or> (the (time_of_day search) = ''evening'' \<and> hour (start_time slot) < 17))))"
  unfolding skipped_def by (simp only: if_True if_False split: if_splits) blast

lemma bucket_complement:
  assumes "b \<in> {''morning'', ''afternoon'', ''evening''}"
  shows "in_bucket b h \<longleftrightarrow>
           \<not> ((b = ''morning'' \<and> 12 \<le> h) \<or> (b = ''afternoon'' \<and> (h < 12 \<or> 17 \<le> h))
              \<or> (b = ''evening'' \<and> h < 17))"
proof -
  from assms consider "b = ''morning''" | "b = ''afternoon''" | "b = ''evening''" by blast
  then show ?thesis
  proof cases
    case 1 then show ?thesis by (simp add: in_bucket_def not_le)
  next
    case 2 then show ?thesis by (simp add: in_bucket_def not_le not_less)
  next
    case 3 then show ?thesis by (simp add: in_bucket_def not_less)
  qed
qed

lemma skipped_iff:
  assumes "state_of now slot \<noteq> Held"
    and "truthy (time_of_day search) \<longrightarrow>
           the (time_of_day search) \<in> {''morning'', ''afternoon'', ''evening''}"
  shows "skipped search slot \<longleftrightarrow> \<not> satisfies_filters now search slot"
proof -
  note av = state_of_flag [OF assms(1)]
  have 1: "(\<not> (truthy (search_provider_id search) \<longrightarrow>
               search_provider_id search = Some (slot_provider_id slot)))
           = (truthy (search_provider_id search)
              \<and> slot_provider_id slot \<noteq> the (search_provider_id search))"
    by (cases "search_provider_id search") auto
  have 2: "(\<not> (truthy (search_location_id search) \<longrightarrow>
               search_location_id search = Some (slot_location_id slot)))
           = (truthy (search_location_id search)
              \<and> slot_location_id slot \<noteq> the (search_location_id search))"
    by (cases "search_location_id search") auto
  have 3: "(\<not> (truthy (search_appointment_type search) \<longrightarrow>
               the (search_appointment_type search) \<in> set (appointment_types slot)))
           = (truthy (search_appointment_type search)
              \<and> the (search_appointment_type search) \<notin> set (appointment_types slot))"
    by blast
  have 4: "(\<not> (truthy (time_of_day search) \<longrightarrow>
               in_bucket (the (time_of_day search)) (hour (start_time slot))))
           = (truthy (time_of_day search)
           \<and> ((the (time_of_day search) = ''morning'' \<and> 12 \<le> hour (start_time slot))
                \<or> (the (time_of_day search) = ''afternoon''
                     \<and> (hour (start_time slot) < 12 \<or> 17 \<le> hour (start_time slot)))
                \<or> (the (time_of_day search) = ''evening'' \<and> hour (start_time slot) < 17)))"
    using assms(2) bucket_complement [of "the (time_of_day search)" "hour (start_time slot)"]
    by blast
  have 5: "(\<not> start_date search \<le> slot_date slot) = (slot_date slot < start_date search)"
    by (rule not_le)
  have 6: "(\<not> slot_date slot \<le> end_date search) = (end_date search < slot_date slot)"
    by (rule not_le)
  show ?thesis
    unfolding skipped_unfold satisfies_filters_def av de_Morgan_conj 1 2 3 4 5 6 ..
qed

lemma search_slots_eq:
  assumes "truthy (time_of_day search) \<longrightarrow>
           the (time_of_day search) \<in> {''morning'', ''afternoon'', ''evening''}"
    and "\<forall>s \<in> snd ` set (slots svc). state_of now s \<noteq> Held"
  shows "search_slots search svc =
     slice_to (limit search)
       (sort_key slot_order (filter (satisfies_filters now search) (map snd (slots svc))))"
proof -
  have "filter (\<lambda>s. \<not> skipped search s) (map snd (slots svc))
          = filter (satisfies_filters now search) (map snd (slots svc))"
    using assms by (intro filter_cong refl) (auto simp: skipped_iff)
  then show ?thesis
    by (simp only: search_slots_code slot_order_def [abs_def])
qed

text \<open>
  C8, as amended. For a search whose limit is not negative and whose time of day, when
  supplied, is \<open>morning\<close>, \<open>afternoon\<close> or \<open>evening\<close>, and at an instant at which no slot
  of the store is held, \<open>search_slots\<close> returns the slots of the store that are available
  and satisfy every supplied filter (date range, provider, location, reservation type among
  the slot's types, time-of-day bucket), sorted ascending by date and start time and cut to
  the first \<open>limit\<close> entries: it equals the answer written from the specification, it is
  sorted, each of its elements is a matching slot of the store, its length is the smaller
  of the limit and the number of matching slots, and when the limit does not cut it holds
  exactly the matching slots.
\<close>

theorem search_slots_contract:
  assumes "0 \<le> limit search"
    and "truthy (time_of_day search) \<longrightarrow>
           the (time_of_day search) \<in> {''morning'', ''afternoon'', ''evening''}"
    and "\<forall>s \<in> snd ` set (slots svc). state_of now s \<noteq> Held"
  shows "search_slots search svc = search_spec now search (map snd (slots svc))
    \<and> sorted (map slot_order (search_slots search svc))
    \<and> (\<forall>s \<in> set (search_slots search svc).
          s \<in> snd ` set (slots svc) \<and> satisfies_filters now search s)
    \<and> length (search_slots search svc) =
         min (nat (limit search))
             (length (filter (satisfies_filters now search) (map snd (slots svc))))
    \<and> (int (length (filter (satisfies_filters now search) (map snd (slots svc)))) \<le> limit search
         \<longrightarrow> mset (search_slots search svc)
               = mset (filter (satisfies_filters now search) (map snd (slots svc))))"
proof -
  let ?m = "filter (satisfies_filters now search) (map snd (slots svc))"
  have eq: "search_slots search svc = take (nat (limit search)) (sort_key slot_order ?m)"
    using assms(1) by (simp add: search_slots_eq [OF assms(2,3)] slice_to_def)
  have s: "sorted (map slot_order (search_slots search svc))"
    unfolding eq take_map [symmetric] by (rule sorted_wrt_take) simp
  have m: "\<forall>s \<in> set (search_slots search svc).
             s \<in> snd ` set (slots svc) \<and> satisfies_filters now search s"
  proof
    fix s assume "s \<in> set (search_slots search svc)"
    then have "s \<in> set (sort_key slot_order ?m)" unfolding eq by (rule in_set_takeD)
    then show "s \<in> snd ` set (slots svc) \<and> satisfies_filters now search s" by auto
  qed
  have l: "length (search_slots search svc) = min (nat (limit search)) (length ?m)"
    unfolding eq by (simp add: min.commute)
  have a: "int (length ?m) \<le> limit search \<longrightarrow> mset (search_slots search svc) = mset ?m"
  proof
    assume "int (length ?m) \<le> limit search"
    then have "length (sort_key slot_order ?m) \<le> nat (limit search)" by simp
    then have "take (nat (limit search)) (sort_key slot_order ?m) = sort_key slot_order ?m"
      by (rule take_all)
    then show "mset (search_slots search svc) = mset ?m"
      unfolding eq by (simp only: mset_sort)
  qed
  have e: "search_slots search svc = search_spec now search (map snd (slots svc))"
    unfolding eq search_spec_def ..
  from e s m l a show ?thesis by blast
qed

theorem search_slots_contract_witness:
  "0 \<le> limit (sample_search 1)
   \<and> map (state_of 60) (map snd (slots sample_availability))
       = [Available, Available, Available]
   \<and> search_slots (sample_search 1) sample_availability = [slot_b]
   \<and> search_slots (sample_search 5) sample_availability = [slot_b, slot_a]"
proof -
  have h1: "0 \<le> limit (sample_search 1)" and h5: "0 \<le> limit (sample_search 5)"
    by (simp_all add: sample_search_def)
  have t: "\<And>n. truthy (time_of_day (sample_search n)) \<longrightarrow>
           the (time_of_day (sample_search n)) \<in> {''morning'', ''afternoon'', ''evening''}"
    by (simp add: sample_search_def)
  have n: "\<forall>s \<in> snd ` set (slots sample_availability). state_of 60 s \<noteq> Held"
    by (simp add: sample_availability_def state_of_def slot_a_def slot_b_def slot_c_def
          generated_slot_def)
  have m: "\<And>n. filter (satisfies_filters 60 (sample_search n))
                  (map snd (slots sample_availability)) = [slot_a, slot_b]"
    by (simp add: sample_availability_def satisfies_filters_def state_of_def sample_search_def
          slot_a_def slot_b_def slot_c_def generated_slot_def)
  have o: "sort_key slot_order [slot_a, slot_b] = [slot_b, slot_a]"
    by (simp add: slot_order_def slot_a_def slot_b_def generated_slot_def)
  have "search_spec 60 (sample_search 1) (map snd (slots sample_availability)) = [slot_b]"
    unfolding search_spec_def m o by (simp add: sample_search_def)
  moreover
  have "search_spec 60 (sample_search 5) (map snd (slots sample_availability)) = [slot_b, slot_a]"
    unfolding search_spec_def m o by (simp add: sample_search_def)
  moreover
  have "map (state_of 60) (map snd (slots sample_availability))
          = [Available, Available, Available]"
    by (simp add: sample_availability_def state_of_def slot_a_def slot_b_def slot_c_def
          generated_slot_def)
  ultimately show ?thesis
    using h1 search_slots_contract [OF h1 t n] search_slots_contract [OF h5 t n]
    by simp
qed

text \<open>
  C8 as first stated fails in three places. With limit \<open>-1\<close> the slice drops the last of
  the two matching slots and returns one, where a truncation to the limit returns none. A
  slot held by \<open>H1\<close> until instant 600 is returned at instant 60 although it is held, not
  available. With the time of day \<open>night\<close> no slot is filtered out, although no slot lies
  in a bucket of that name.
\<close>

lemma held_availability_eq:
  "held_availability =
     \<lparr>slots = [(''slot-a'', slot_a),
               (''slot-b'', slot_b\<lparr>held_by := Some ''H1'', held_until := Some 600\<rparr>),
               (''slot-c'', slot_c)],
      holds = [(''hold-h1'', \<lparr>hold_slot_id = ''slot-b'', hold_patient_id = ''H1'', held_at = 0,
                  hold_expires_at = 600, hold_status = ''active''\<rparr>)]\<rparr>"
  by (simp add: held_availability_def hold_slot_def sample_availability_def Let_def slot_b_def
        generated_slot_def add_seconds_def timedelta_ok_def)

theorem search_slots_contract_counterexample:
  "search_slots (sample_search (- 1)) sample_availability = [slot_b]
   \<and> search_spec 60 (sample_search (- 1)) (map snd (slots sample_availability)) = []
   \<and> state_of 60 (slot_b\<lparr>held_by := Some ''H1'', held_until := Some 600\<rparr>) = Held
   \<and> search_slots (sample_search 5) held_availability
       = [slot_b\<lparr>held_by := Some ''H1'', held_until := Some 600\<rparr>, slot_a]
   \<and> search_spec 60 (sample_search 5) (map snd (slots held_availability)) = [slot_a]
   \<and> search_slots ((sample_search 5)\<lparr>time_of_day := Some ''night''\<rparr>) sample_availability
       = [slot_b, slot_a]
   \<and> search_spec 60 ((sample_search 5)\<lparr>time_of_day := Some ''night''\<rparr>)
         (map snd (slots sample_availability)) = []"
proof -
  have 1: "search_slots (sample_search (- 1)) sample_availability = [slot_b]"
    by (simp add: search_slots_def skipped_def slice_to_def sample_search_def
          sample_availability_def slot_a_def slot_b_def slot_c_def generated_slot_def)
  have 2: "search_spec 60 (sample_search (- 1)) (map snd (slots sample_availability)) = []"
    by (simp add: search_spec_def sample_search_def)
  have 3: "state_of 60 (slot_b\<lparr>held_by := Some ''H1'', held_until := Some 600\<rparr>) = Held"
    by (simp add: state_of_def slot_b_def generated_slot_def)
  have 4: "search_slots (sample_search 5) held_availability
       = [slot_b\<lparr>held_by := Some ''H1'', held_until := Some 600\<rparr>, slot_a]"
    by (simp add: held_availability_eq search_slots_def skipped_def slice_to_def
          sample_search_def slot_a_def slot_b_def slot_c_def generated_slot_def)
  have 5: "search_spec 60 (sample_search 5) (map snd (slots held_availability)) = [slot_a]"
    by (simp add: held_availability_eq search_spec_def satisfies_filters_def state_of_def
          sample_search_def slot_a_def slot_b_def slot_c_def generated_slot_def)
  have 6: "search_slots ((sample_search 5)\<lparr>time_of_day := Some ''night''\<rparr>) sample_availability
       = [slot_b, slot_a]"
    by (simp add: search_slots_def skipped_def slice_to_def sample_search_def
          sample_availability_def slot_a_def slot_b_def slot_c_def generated_slot_def)
  have 7: "search_spec 60 ((sample_search 5)\<lparr>time_of_day := Some ''night''\<rparr>)
         (map snd (slots sample_availability)) = []"
    by (simp add: search_spec_def satisfies_filters_def in_bucket_def sample_search_def
          sample_availability_def)
  from 1 2 3 4 5 6 7 show ?thesis by (intro conjI)
qed

section \<open>What an update leaves alone\<close>

lemma update_fields_frame:
  "end_time (update_fields now update a) = end_time a
   \<and> status (update_fields now update a) = status a
   \<and> scheduled_time (update_fields now update a) = scheduled_time a
   \<and> update_fields now update a
       = a\<lparr>reason := reason (update_fields now update a),
           apt_notes := apt_notes (update_fields now update a),
           updated_at := updated_at (update_fields now update a)\<rparr>"
  by (simp add: update_fields_def Let_def)

text \<open>
  C10. \<open>update_appointment\<close> leaves the \<open>end_time\<close> and the \<open>status\<close> of every stored
  appointment as they were, also when it rewrites \<open>scheduled_time\<close>; and when the request
  carries neither a date nor a time, the availability service is unchanged and every stored
  appointment differs from its former value at most in \<open>reason\<close>, \<open>notes\<close> and
  \<open>updated_at\<close>.
\<close>

theorem update_appointment_frame:
  "(\<forall>k a. appointments svc k = Some a \<longrightarrow>
       (\<exists>a'. appointments (snd (update_appointment now appointment_id update svc)) k = Some a'
             \<and> end_time a' = end_time a \<and> status a' = status a))
   \<and> (upd_scheduled_date update = None \<and> upd_scheduled_time update = None \<longrightarrow>
        availability_service (snd (update_appointment now appointment_id update svc))
          = availability_service svc
        \<and> (\<forall>k a. appointments svc k = Some a \<longrightarrow>
              (\<exists>a'. appointments (snd (update_appointment now appointment_id update svc)) k = Some a'
                 \<and> a' = a\<lparr>reason := reason a', apt_notes := apt_notes a',
                           updated_at := updated_at a'\<rparr>)))"
proof (cases "appointments svc appointment_id")
  case None
  then show ?thesis by (simp add: update_appointment_def)
next
  case (Some b)
  note f = update_fields_frame [of now update]
  from Some show ?thesis
    using f [of b] f [of "b\<lparr>scheduled_time := combine
             (case upd_scheduled_date update of Some d \<Rightarrow> d | None \<Rightarrow> date_of (scheduled_time b))
             (case upd_scheduled_time update of Some t \<Rightarrow> t | None \<Rightarrow> time_of (scheduled_time b))\<rparr>"]
    by (auto simp: update_appointment_def Let_def mark_slot_booked_def mark_slot_available_def)
qed

theorem update_appointment_frame_witness:
  "\<exists>a'. appointments (snd (update_appointment 7 ''apt-u1''
            \<lparr>upd_scheduled_date = None, upd_scheduled_time = None, upd_reason = Some ''flu'',
             upd_notes = Some ''bring card''\<rparr> booked_service)) ''apt-u1'' = Some a'
        \<and> end_time a' = (20, 37800) \<and> status a' = SCHEDULED
        \<and> a' = booked_appointment\<lparr>reason := reason a', apt_notes := apt_notes a',
                                   updated_at := updated_at a'\<rparr>"
proof -
  let ?u = "\<lparr>upd_scheduled_date = None, upd_scheduled_time = None, upd_reason = Some ''flu'',
             upd_notes = Some ''bring card''\<rparr>"
  let ?s = "snd (update_appointment 7 ''apt-u1'' ?u booked_service)"
  have a: "appointments booked_service ''apt-u1'' = Some booked_appointment"
    by (simp add: booked_service_def)
  note t = update_appointment_frame [of booked_service 7 "''apt-u1''" ?u]
  from t a obtain a1 where 1: "appointments ?s ''apt-u1'' = Some a1"
      "end_time a1 = end_time booked_appointment" "status a1 = status booked_appointment"
    by blast
  from t a obtain a2 where 2: "appointments ?s ''apt-u1'' = Some a2"
      "a2 = booked_appointment\<lparr>reason := reason a2, apt_notes := apt_notes a2,
                                 updated_at := updated_at a2\<rparr>"
    by (simp del: split_paired_All) blast
  from 1 2 have "a1 = a2" by simp
  with 1 2 show ?thesis by (auto simp: booked_appointment_def)
qed

section \<open>Waitlist\<close>

lemma map_of_dict_set: "map_of (dict_set k v xs) = (map_of xs)(k \<mapsto> v)"
  by (induction xs) auto

text \<open>
  C9. The entry that \<open>add_to_waitlist\<close> creates has position one more than the number of
  stored entries of the same provider whose status is \<open>waiting\<close>, and it is stored under
  its id. No operation renumbers: every stored entry is unchanged by a later join (whose
  generated id is new), and keeps its position through any leave and any notify.
\<close>

theorem waitlist_position_assigned_once:
  "position (fst (add_to_waitlist now uid request svc))
      = 1 + int (waiting_count (wreq_provider_id request) svc)
   \<and> map_of (entries (snd (add_to_waitlist now uid request svc))) (''wl-'' @ uid)
      = Some (fst (add_to_waitlist now uid request svc))
   \<and> (\<forall>k e. map_of (entries svc) k = Some e \<longrightarrow>
        (map_of (entries svc) (''wl-'' @ uid) = None \<longrightarrow>
           map_of (entries (snd (add_to_waitlist now uid request svc))) k = Some e)
        \<and> (\<exists>e'. map_of (entries (snd (remove_from_waitlist entry_id svc))) k = Some e'
                \<and> position e' = position e)
        \<and> (\<exists>e'. map_of (entries (snd (notify_patient now' entry_id svc))) k = Some e'
                \<and> position e' = position e))"
  by (auto simp: add_to_waitlist_def Let_def waiting_count_def map_of_dict_set
        remove_from_waitlist_def notify_patient_def split: option.splits)

theorem waitlist_position_assigned_once_witness:
  "map_of (entries sample_waitlist) ''wl-w3'' = None
   \<and> position (fst (add_to_waitlist 3 ''w3'' (sample_waitlist_request ''P3'' ''prov-001'')
                       sample_waitlist)) = 3
   \<and> (\<exists>e. map_of (entries sample_waitlist) ''wl-w2'' = Some e \<and> position e = 2
        \<and> map_of (entries (snd (add_to_waitlist 3 ''w3''
                (sample_waitlist_request ''P3'' ''prov-001'') sample_waitlist))) ''wl-w2'' = Some e
        \<and> (\<exists>e'. map_of (entries (snd (remove_from_waitlist ''wl-w1'' sample_waitlist))) ''wl-w2''
                   = Some e' \<and> position e' = 2)
        \<and> (\<exists>e'. map_of (entries (snd (notify_patient 4 ''wl-w1'' sample_waitlist))) ''wl-w2''
                   = Some e' \<and> position e' = 2))"
proof -
  let ?r = "sample_waitlist_request ''P3'' ''prov-001''"
  have n: "map_of (entries sample_waitlist) ''wl-w3'' = None"
    by (simp add: sample_waitlist_def add_to_waitlist_def Let_def)
  have c: "waiting_count (wreq_provider_id ?r) sample_waitlist = 2"
    by (simp add: waiting_count_def sample_waitlist_def add_to_waitlist_def Let_def
          sample_waitlist_request_def)
  obtain e where e: "map_of (entries sample_waitlist) ''wl-w2'' = Some e" "position e = 2"
    by (simp add: sample_waitlist_def add_to_waitlist_def Let_def sample_waitlist_request_def)
  note t = waitlist_position_assigned_once [of 3 "''w3''" ?r sample_waitlist "''wl-w1''" 4]
  note t1 = t [THEN conjunct1]
  note t3 = t [THEN conjunct2, THEN conjunct2, rule_format, OF e(1)]
  from t1 have p: "position (fst (add_to_waitlist 3 ''w3'' ?r sample_waitlist)) = 3"
    unfolding c by simp
  have n': "map_of (entries sample_waitlist) (''wl-'' @ ''w3'') = None"
    using n by simp
  from t3 [THEN conjunct1, rule_format, OF n']
  have a: "map_of (entries (snd (add_to_waitlist 3 ''w3'' ?r sample_waitlist)))
                           ''wl-w2'' = Some e" .
  from t3 [THEN conjunct2, THEN conjunct1]
  obtain e1 where l: "map_of (entries (snd (remove_from_waitlist ''wl-w1''
         sample_waitlist))) ''wl-w2'' = Some e1" "position e1 = position e"
    by (elim exE conjE)
  from t3 [THEN conjunct2, THEN conjunct2]
  obtain e2 where m: "map_of (entries (snd (notify_patient 4 ''wl-w1''
         sample_waitlist))) ''wl-w2'' = Some e2" "position e2 = position e"
    by (elim exE conjE)
  have r: "\<exists>e'. map_of (entries (snd (remove_from_waitlist ''wl-w1'' sample_waitlist))) ''wl-w2''
                   = Some e' \<and> position e' = 2"
    using l(1) l(2) [unfolded e(2)] by (intro exI [of _ e1] conjI)
  have o: "\<exists>e'. map_of (entries (snd (notify_patient 4 ''wl-w1'' sample_waitlist))) ''wl-w2''
                   = Some e' \<and> position e' = 2"
    using m(1) m(2) [unfolded e(2)] by (intro exI [of _ e2] conjI)
  from e a r o have "map_of (entries sample_waitlist) ''wl-w2'' = Some e \<and> position e = 2
        \<and> map_of (entries (snd (add_to_waitlist 3 ''w3'' ?r sample_waitlist))) ''wl-w2'' = Some e
        \<and> (\<exists>e'. map_of (entries (snd (remove_from_waitlist ''wl-w1'' sample_waitlist))) ''wl-w2''
                   = Some e' \<and> position e' = 2)
        \<and> (\<exists>e'. map_of (entries (snd (notify_patient 4 ''wl-w1'' sample_waitlist))) ''wl-w2''
                   = Some e' \<and> position e' = 2)"
    by (intro conjI)
  then have "\<exists>e. map_of (entries sample_waitlist) ''wl-w2'' = Some e \<and> position e = 2
        \<and> map_of (entries (snd (add_to_waitlist 3 ''w3'' ?r sample_waitlist))) ''wl-w2'' = Some e
        \<and> (\<exists>e'. map_of (entries (snd (remove_from_waitlist ''wl-w1'' sample_waitlist))) ''wl-w2''
                   = Some e' \<and> position e' = 2)
        \<and> (\<exists>e'. map_of (entries (snd (notify_patient 4 ''wl-w1'' sample_waitlist))) ''wl-w2''
                   = Some e' \<and> position e' = 2)"
    by (rule exI [where x = e])
  with n p show ?thesis by (intro conjI)
qed

section \<open>Check-in and completion\<close>

text \<open>
  C6, evaluated where the code departs from it: after the sample appointment has been
  cancelled, \<open>check_in\<close> returns normally and sets the status to \<open>CHECKED_IN\<close>, and
  \<open>complete\<close> returns normally and sets it to \<open>COMPLETED\<close>; neither raises for the
  cancelled status, unlike \<open>update_appointment\<close> and \<open>cancel_appointment\<close>.
\<close>

theorem check_in_complete_ignore_cancelled:
  "(\<exists>a. appointments cancelled_service ''apt-u1'' = Some a \<and> status a = CANCELLED)
   \<and> fst (check_in 9 ''apt-u1'' cancelled_service) = Inr ()
   \<and> (\<exists>a. appointments (snd (check_in 9 ''apt-u1'' cancelled_service)) ''apt-u1'' = Some a
          \<and> status a = CHECKED_IN \<and> checked_in_at a = Some 9)
   \<and> fst (complete 9 ''apt-u1'' None cancelled_service) = Inr ()
   \<and> (\<exists>a. appointments (snd (complete 9 ''apt-u1'' None cancelled_service)) ''apt-u1'' = Some a
          \<and> status a = COMPLETED \<and> completed_at a = Some 9)"
  by (simp add: cancelled_service_def cancel_appointment_def booked_service_def
        booked_appointment_def check_in_def complete_def Let_def)

section \<open>Holds\<close>

text \<open>
  C4, evaluated where the code departs from it: \<open>slot-b\<close> is held by \<open>H1\<close> from instant 0
  until instant 600, and at instant 60 \<open>create_appointment\<close> for requester \<open>R2\<close> on the
  slot's natural key returns a scheduled appointment. \<open>hold_slot\<close> leaves \<open>available\<close>
  true and \<open>is_slot_available\<close> reads nothing else.
\<close>

theorem hold_does_not_block_booking:
  "fst (hold_slot 0 ''h1'' ''slot-b'' ''H1'' 10 sample_availability)
     = Inr \<lparr>hold_slot_id = ''slot-b'', hold_patient_id = ''H1'', held_at = 0,
            hold_expires_at = 600, hold_status = ''active''\<rparr>
   \<and> (\<exists>slot. map_of (slots held_availability) ''slot-b'' = Some slot
         \<and> same_key slot ''prov-001'' 20 36000
         \<and> held_by slot = Some ''H1'' \<and> held_until slot = Some 600)
   \<and> (\<exists>a. fst (create_appointment 60 ''u2'' (sample_request ''R2'')
                  (sample_service\<lparr>availability_service := held_availability\<rparr>)) = Inr a
         \<and> patient_id a = ''R2'' \<and> status a = SCHEDULED
         \<and> scheduled_time a = (20, 36000))"
proof -
  have 1: "fst (hold_slot 0 ''h1'' ''slot-b'' ''H1'' 10 sample_availability)
     = Inr \<lparr>hold_slot_id = ''slot-b'', hold_patient_id = ''H1'', held_at = 0,
            hold_expires_at = 600, hold_status = ''active''\<rparr>"
    by (simp add: hold_slot_def sample_availability_def Let_def slot_b_def generated_slot_def
          add_seconds_def timedelta_ok_def)
  have 2: "\<exists>slot. map_of (slots held_availability) ''slot-b'' = Some slot
         \<and> same_key slot ''prov-001'' 20 36000
         \<and> held_by slot = Some ''H1'' \<and> held_until slot = Some 600"
    by (simp add: held_availability_eq same_key_def slot_b_def generated_slot_def)
  have 3: "\<exists>a. fst (create_appointment 60 ''u2'' (sample_request ''R2'')
                  (sample_service\<lparr>availability_service := held_availability\<rparr>)) = Inr a
         \<and> patient_id a = ''R2'' \<and> status a = SCHEDULED
         \<and> scheduled_time a = (20, 36000)"
    by (simp add: held_availability_eq create_appointment_def Let_def acquire_lock_def
          install_lock_def add_seconds_def timedelta_ok_def add_minutes_def date_of_def
          time_of_def create_appointment_locked_def sample_request_def sample_service_def
          is_slot_available_def same_key_def slot_a_def slot_b_def generated_slot_def
          combine_def)
  from 1 2 3 show ?thesis by blast
qed

text \<open>
  C7, evaluated where the code departs from it: \<open>slot-b\<close> is held by \<open>H1\<close> until instant
  600, and at instant 1 \<open>hold_slot\<close> for \<open>H2\<close> on the same slot succeeds. The hold table
  then has two records for the slot, both \<open>active\<close> and both unexpired, for two holders,
  and the slot names \<open>H2\<close> as its holder.
\<close>

theorem second_hold_succeeds_on_held_slot:
  "fst (hold_slot 1 ''h2'' ''slot-b'' ''H2'' 10 held_availability)
     = Inr \<lparr>hold_slot_id = ''slot-b'', hold_patient_id = ''H2'', held_at = 1,
            hold_expires_at = 601, hold_status = ''active''\<rparr>
   \<and> holds (snd (hold_slot 1 ''h2'' ''slot-b'' ''H2'' 10 held_availability))
     = [(''hold-h1'', \<lparr>hold_slot_id = ''slot-b'', hold_patient_id = ''H1'', held_at = 0,
                        hold_expires_at = 600, hold_status = ''active''\<rparr>),
        (''hold-h2'', \<lparr>hold_slot_id = ''slot-b'', hold_patient_id = ''H2'', held_at = 1,
                        hold_expires_at = 601, hold_status = ''active''\<rparr>)]
   \<and> (\<exists>slot. map_of (slots (snd (hold_slot 1 ''h2'' ''slot-b'' ''H2'' 10 held_availability)))
                ''slot-b'' = Some slot \<and> held_by slot = Some ''H2'')"
  by (simp add: held_availability_eq hold_slot_def Let_def slot_b_def generated_slot_def
        add_seconds_def timedelta_ok_def)

end
